theory Spec2Isabelle
  imports Main "HOL-Library.Word"
begin

unbundle bit_operations_syntax

section \<open>The browser client of the phone assistant (app/static/js/main.js)\<close>

text \<open>
  The class \<open>AIPhoneAssistant\<close> is embedded as functions over an explicit state record.
  Each \<open>async\<close> method is cut at its \<open>await\<close>: the part that runs up to the
  \<open>fetch\<close> records the call, and the reply of the server is an argument of the part
  that runs after it. Platform functions the class calls (\<open>TextDecoder\<close>,
  \<open>JSON.parse\<close>, \<open>setInterval\<close>) are modelled or taken as parameters.
\<close>

subsection \<open>JavaScript strings\<close>

text \<open>
  A JavaScript string is a sequence of UTF-16 code units. Literals of the source that are
  not ASCII are written out as their code units.
\<close>

type_synonym jstring = "nat list"

definition ascii :: "string \<Rightarrow> jstring" where
  "ascii s = map of_char s"

text \<open>\<open>line.startsWith(p)\<close> and \<open>line.slice(n)\<close> for \<open>n\<close> within the line or beyond it.\<close>

definition startsWith :: "jstring \<Rightarrow> jstring \<Rightarrow> bool" where
  "startsWith line p = (take (length p) line = p)"

definition slice_from :: "nat \<Rightarrow> jstring \<Rightarrow> jstring" where
  "slice_from n line = drop n line"

text \<open>
  \<open>s.split(sep)\<close> for a separator of one code unit: \<open>n\<close> separators give \<open>n + 1\<close>
  segments, so the result is never empty; \<open>cur\<close> is the segment being read.
\<close>

fun split_from :: "nat \<Rightarrow> jstring \<Rightarrow> jstring \<Rightarrow> jstring list" where
  "split_from sep cur [] = [cur]"
| "split_from sep cur (x # xs) =
     (if x = sep then cur # split_from sep [] xs else split_from sep (cur @ [x]) xs)"

definition split :: "nat \<Rightarrow> jstring \<Rightarrow> jstring list" where
  "split sep s = split_from sep [] s"

definition newline :: nat where
  "newline = 0x0A"

text \<open>
  \<open>s.trim()\<close> removes the white space and line terminators of ECMAScript from both ends.
\<close>

definition js_whitespace :: "nat \<Rightarrow> bool" where
  "js_whitespace c =
     (c \<in> {0x09, 0x0A, 0x0B, 0x0C, 0x0D, 0x20, 0xA0, 0x1680, 0x2028, 0x2029, 0x202F,
            0x205F, 0x3000, 0xFEFF}
      \<or> (0x2000 \<le> c \<and> c \<le> 0x200A))"

definition trim :: "jstring \<Rightarrow> jstring" where
  "trim s = rev (dropWhile js_whitespace (rev (dropWhile js_whitespace s)))"

subsection \<open>\<open>TextDecoder\<close> in streaming mode\<close>

text \<open>
  \<open>new TextDecoder()\<close> decodes UTF-8, replaces malformed input by U+FFFD and removes
  one leading byte order mark. With \<open>{stream: true}\<close> the decoder is never flushed: the
  bytes of an unfinished character stay in its state until the next call. The state and
  the handler of one byte follow the UTF-8 decoder of the Encoding standard.
\<close>

type_synonym byte = "8 word"

record utf8_decoder =
  code_point :: nat
  bytes_seen :: nat
  bytes_needed :: nat
  lower_boundary :: byte
  upper_boundary :: byte

definition utf8_init :: utf8_decoder where
  "utf8_init = \<lparr>code_point = 0, bytes_seen = 0, bytes_needed = 0,
                 lower_boundary = 0x80, upper_boundary = 0xBF\<rparr>"

text \<open>The handler when no character is in progress (\<open>bytes_needed = 0\<close>).\<close>

definition utf8_lead :: "utf8_decoder \<Rightarrow> byte \<Rightarrow> nat list \<times> utf8_decoder" where
  "utf8_lead d b =
     (if b \<le> 0x7F then ([unat b], d)
      else if 0xC2 \<le> b \<and> b \<le> 0xDF then
        ([], d\<lparr>bytes_needed := 1, code_point := unat (b AND 0x1F)\<rparr>)
      else if 0xE0 \<le> b \<and> b \<le> 0xEF then
        ([], d\<lparr>lower_boundary := (if b = 0xE0 then 0xA0 else lower_boundary d),
               upper_boundary := (if b = 0xED then 0x9F else upper_boundary d),
               bytes_needed := 2, code_point := unat (b AND 0x0F)\<rparr>)
      else if 0xF0 \<le> b \<and> b \<le> 0xF4 then
        ([], d\<lparr>lower_boundary := (if b = 0xF0 then 0x90 else lower_boundary d),
               upper_boundary := (if b = 0xF4 then 0x8F else upper_boundary d),
               bytes_needed := 3, code_point := unat (b AND 0x07)\<rparr>)
      else ([0xFFFD], d))"

text \<open>
  The handler of one byte. A byte outside the expected range ends the character in
  progress with U+FFFD and is read again as the first byte of the next one.
\<close>

definition utf8_handler :: "utf8_decoder \<Rightarrow> byte \<Rightarrow> nat list \<times> utf8_decoder" where
  "utf8_handler d b =
     (if bytes_needed d = 0 then utf8_lead d b
      else if \<not> (lower_boundary d \<le> b \<and> b \<le> upper_boundary d) then
        (let (cs, d') = utf8_lead utf8_init b in (0xFFFD # cs, d'))
      else
        (let d1 = d\<lparr>lower_boundary := 0x80, upper_boundary := 0xBF,
                     code_point := code_point d * 64 + unat (b AND 0x3F),
                     bytes_seen := bytes_seen d + 1\<rparr>
         in if bytes_seen d1 \<noteq> bytes_needed d1 then ([], d1)
            else ([code_point d1], d1\<lparr>code_point := 0, bytes_needed := 0, bytes_seen := 0\<rparr>)))"

fun utf8_run :: "utf8_decoder \<Rightarrow> byte list \<Rightarrow> nat list \<times> utf8_decoder" where
  "utf8_run d [] = ([], d)"
| "utf8_run d (b # bs) =
     (let (cs, d1) = utf8_handler d b; (cs', d2) = utf8_run d1 bs in (cs @ cs', d2))"

text \<open>A scalar value as UTF-16 code units.\<close>

definition utf16 :: "nat \<Rightarrow> jstring" where
  "utf16 c =
     (if c < 0x10000 then [c]
      else [0xD800 + (c - 0x10000) div 0x400, 0xDC00 + (c - 0x10000) mod 0x400])"

text \<open>
  The output of a call is serialised to a string; the first scalar value the decoder ever
  produces is dropped when it is the byte order mark. The flag is \<open>BOM seen\<close>.
\<close>

fun serialize :: "bool \<Rightarrow> nat list \<Rightarrow> jstring \<times> bool" where
  "serialize seen [] = ([], seen)"
| "serialize seen (c # cs) =
     (let (out, seen') = serialize True cs
      in if \<not> seen \<and> c = 0xFEFF then (out, seen') else (utf16 c @ out, seen'))"

record text_decoder =
  utf8 :: utf8_decoder
  BOM_seen :: bool

definition new_TextDecoder :: text_decoder where
  "new_TextDecoder = \<lparr>utf8 = utf8_init, BOM_seen = False\<rparr>"

text \<open>\<open>decoder.decode(value, {stream: true})\<close>: the text and the decoder afterwards.\<close>

definition decode :: "text_decoder \<Rightarrow> byte list \<Rightarrow> jstring \<times> text_decoder" where
  "decode td val =
     (let (cs, u) = utf8_run (utf8 td) val; (out, seen) = serialize (BOM_seen td) cs
      in (out, \<lparr>utf8 = u, BOM_seen = seen\<rparr>))"

subsection \<open>The records of the execution stream\<close>

text \<open>
  What \<open>handleStepResult\<close> reads of a parsed record. A field is \<open>None\<close> when the record
  does not have it (the read gives \<open>undefined\<close>) or has it as \<open>null\<close>. \<open>action\<close> is an
  object, kept as the text \<open>JSON.stringify\<close> gives for it.
\<close>

record debug_info =
  user_message :: "jstring option"
  raw_response :: "jstring option"

record event =
  ev_type :: "jstring option"
  message :: "jstring option"
  screenshot :: "jstring option"
  action :: "jstring option"
  debug :: "debug_info option"

text \<open>
  A value \<open>JSON.parse\<close> returns: \<open>null\<close>, or a value whose properties can be read. A
  number, a string, a boolean or an array has none of the fields above.
\<close>

datatype json = JNull | JData event

datatype js_error = Error jstring

text \<open>\<open>JSON.parse\<close> is a parameter \<open>parse\<close>: \<open>None\<close> when it throws a SyntaxError.\<close>

type_synonym parser = "jstring \<Rightarrow> json option"

subsection \<open>The reader loop of \<open>executeTask\<close>\<close>

definition data_prefix :: jstring where
  "data_prefix = ascii ''data: ''"

text \<open>
  The body of \<open>for (const line of lines)\<close>. The handler \<open>h\<close> stands for
  \<open>this.handleStepResult\<close> on the state \<open>s\<close>; both a parse error and an exception of
  the handler are caught by the \<open>catch\<close> of the loop body and logged.
\<close>

definition on_line :: "parser \<Rightarrow> ('s \<Rightarrow> json \<Rightarrow> js_error + 's) \<Rightarrow> 's \<Rightarrow> jstring \<Rightarrow> 's" where
  "on_line parse h s line =
     (if startsWith line data_prefix then
        (case parse (slice_from 6 line) of
           None \<Rightarrow> s
         | Some data \<Rightarrow> (case h s data of Inl e \<Rightarrow> s | Inr s' \<Rightarrow> s'))
      else s)"

fun for_lines :: "parser \<Rightarrow> ('s \<Rightarrow> json \<Rightarrow> js_error + 's) \<Rightarrow> 's \<Rightarrow> jstring list \<Rightarrow> 's" where
  "for_lines parse h s [] = s"
| "for_lines parse h s (line # lines) = for_lines parse h (on_line parse h s line) lines"

record reader =
  decoder :: text_decoder
  buffer :: jstring

definition new_reader :: reader where
  "new_reader = \<lparr>decoder = new_TextDecoder, buffer = []\<rparr>"

text \<open>
  One round of \<open>while (true)\<close> for a fragment \<open>val\<close> that \<open>reader.read()\<close> delivered.
  \<open>lines.pop()\<close> takes the last segment, which is the new buffer.
\<close>

definition on_chunk ::
  "parser \<Rightarrow> ('s \<Rightarrow> json \<Rightarrow> js_error + 's) \<Rightarrow> 's \<times> reader \<Rightarrow> byte list \<Rightarrow> 's \<times> reader" where
  "on_chunk parse h sr val =
     (let (txt, d) = decode (decoder (snd sr)) val;
          lines = split newline (buffer (snd sr) @ txt)
      in (for_lines parse h (fst sr) (butlast lines), \<lparr>decoder = d, buffer = last lines\<rparr>))"

fun read_loop ::
  "parser \<Rightarrow> ('s \<Rightarrow> json \<Rightarrow> js_error + 's) \<Rightarrow> 's \<times> reader \<Rightarrow> byte list list \<Rightarrow> 's \<times> reader" where
  "read_loop parse h sr [] = sr"
| "read_loop parse h sr (val # vals) = read_loop parse h (on_chunk parse h sr val) vals"

text \<open>The records handed to the handler, in order: the handler that only lists them.\<close>

definition record_it :: "json list \<Rightarrow> json \<Rightarrow> js_error + json list" where
  "record_it rs data = Inr (rs @ [data])"

definition stream_records :: "parser \<Rightarrow> byte list list \<Rightarrow> json list" where
  "stream_records parse vals = fst (read_loop parse record_it ([], new_reader) vals)"

subsection \<open>The state of the assistant\<close>

text \<open>
  \<open>setInterval\<close> is given one of two arrow functions: the screen refresh of
  \<open>startScreenRefresh\<close> and the status poll of \<open>startWirelessPolling\<close>.
\<close>

datatype callback = ScreenRefreshTick | WirelessPollTick

text \<open>The requests the class sends with \<open>fetch\<close>, with what their body carries.\<close>

datatype call =
    DeviceConnect jstring
  | DeviceScreenshot
  | WirelessStatus
  | ChatExecute jstring

text \<open>
  The children of \<open>chatContainer\<close>: the welcome block, a message of \<open>addMessage\<close>
  (role, content), a system message of \<open>addSystemMessage\<close> (type, text, action, debug)
  and the placeholder with class \<open>thinking-message\<close>. An entry holds the text it shows;
  the markup inside an entry is not modelled.
\<close>

datatype entry =
    Welcome
  | Message jstring jstring
  | SystemMessage jstring jstring "jstring option" "debug_info option"
  | Thinking jstring

text \<open>
  The fields of the object, the properties of the page it writes, the live timers of the
  window (handle, callback, delay) and the requests sent so far.
\<close>

record app =
  isConnected :: bool
  isExecuting :: bool
  screenRefreshInterval :: "nat option"
  wirelessPollingInterval :: "nat option"
  messageInput_value :: jstring
  messageInput_disabled :: bool
  btnSend_hidden :: bool
  btnStop_hidden :: bool
  chatContainer :: "entry list"
  deviceScreen_src :: jstring
  screen_shown :: bool
  deviceStatus_connected :: bool
  deviceInfo_text :: jstring
  connectModal_hidden :: bool
  loading_text :: jstring
  loadingOverlay_hidden :: bool
  wirelessIdle_hidden :: bool
  wirelessPairing_hidden :: bool
  wirelessSuccess_hidden :: bool
  wirelessStatus_className :: jstring
  wirelessStatus_message :: jstring
  wirelessStatus_icon :: jstring
  wirelessDevice_text :: jstring
  toasts :: "(jstring \<times> jstring) list"
  intervals :: "(nat \<times> callback \<times> nat) list"
  last_handle :: nat
  fetches :: "call list"

text \<open>
  The page after \<open>new AIPhoneAssistant()\<close>: the fields as the constructor sets them, no
  timer, nothing sent. The properties of the page are those of a page just loaded (the
  welcome block, the dialog and the overlay hidden); only the concrete instances below
  depend on them.
\<close>

definition constructor :: app where
  "constructor =
     \<lparr>isConnected = False, isExecuting = False, screenRefreshInterval = None,
      wirelessPollingInterval = None, messageInput_value = [], messageInput_disabled = False,
      btnSend_hidden = False, btnStop_hidden = True, chatContainer = [Welcome],
      deviceScreen_src = [], screen_shown = False, deviceStatus_connected = False,
      deviceInfo_text = [], connectModal_hidden = True, loading_text = [],
      loadingOverlay_hidden = True, wirelessIdle_hidden = False, wirelessPairing_hidden = True,
      wirelessSuccess_hidden = True, wirelessStatus_className = ascii ''wireless-status'',
      wirelessStatus_message = [], wirelessStatus_icon = [], wirelessDevice_text = [],
      toasts = [], intervals = [], last_handle = 0, fetches = []\<rparr>"

text \<open>
  The reply to a \<open>fetch\<close>: the promise of \<open>fetch\<close> or of \<open>response.json()\<close> is
  rejected with an error message, or the body is parsed.
\<close>

datatype 'a reply = Rejected jstring | Replied 'a

text \<open>\<open>x || dflt\<close> on an optional string: \<open>undefined\<close>, \<open>null\<close> and \<open>''\<close> are falsy.\<close>

definition or_else :: "jstring option \<Rightarrow> jstring \<Rightarrow> jstring" where
  "or_else x dflt = (case x of None \<Rightarrow> dflt | Some t \<Rightarrow> if t = [] then dflt else t)"

subsection \<open>Timers\<close>

text \<open>
  \<open>setInterval\<close> returns a new positive handle, so \<open>if (this.screenRefreshInterval)\<close>
  and \<open>if (this.wirelessPollingInterval)\<close> test the fields for \<open>null\<close>.
\<close>

definition setInterval :: "app \<Rightarrow> callback \<Rightarrow> nat \<Rightarrow> nat \<times> app" where
  "setInterval s cb ms =
     (let h = Suc (last_handle s)
      in (h, s\<lparr>intervals := intervals s @ [(h, cb, ms)], last_handle := h\<rparr>))"

definition clearInterval :: "app \<Rightarrow> nat \<Rightarrow> app" where
  "clearInterval s h = s\<lparr>intervals := filter (\<lambda>t. fst t \<noteq> h) (intervals s)\<rparr>"

text \<open>The live timers that run a given callback.\<close>

definition live :: "app \<Rightarrow> callback \<Rightarrow> nat list" where
  "live s cb = map fst (filter (\<lambda>t. fst (snd t) = cb) (intervals s))"

definition showToast :: "app \<Rightarrow> jstring \<Rightarrow> jstring \<Rightarrow> app" where
  "showToast s msg ty = s\<lparr>toasts := toasts s @ [(msg, ty)]\<rparr>"

subsection \<open>Screen refresh\<close>

definition msg_connect_first :: jstring where
  "msg_connect_first = [0x8BF7, 0x5148, 0x8FDE, 0x63A5, 0x8BBE, 0x5907]"

text \<open>\<open>refreshScreen\<close> up to its \<open>fetch\<close>, and after the reply.\<close>

definition refreshScreen :: "app \<Rightarrow> app" where
  "refreshScreen s =
     (if \<not> isConnected s then showToast s msg_connect_first (ascii ''warning'')
      else s\<lparr>fetches := fetches s @ [DeviceScreenshot]\<rparr>)"

record screenshot_data =
  shot_success :: bool
  shot_data :: jstring

definition refreshScreen_reply :: "app \<Rightarrow> screenshot_data reply \<Rightarrow> app" where
  "refreshScreen_reply s r =
     (case r of
        Rejected m \<Rightarrow> s
      | Replied d \<Rightarrow> if shot_success d then s\<lparr>deviceScreen_src := shot_data d\<rparr> else s)"

definition screenRefreshTick :: "app \<Rightarrow> app" where
  "screenRefreshTick s = (if \<not> isExecuting s then refreshScreen s else s)"

definition startScreenRefresh :: "app \<Rightarrow> app" where
  "startScreenRefresh s =
     (let s1 = refreshScreen s; (h, s2) = setInterval s1 ScreenRefreshTick 2000
      in s2\<lparr>screenRefreshInterval := Some h\<rparr>)"

definition stopScreenRefresh :: "app \<Rightarrow> app" where
  "stopScreenRefresh s =
     (case screenRefreshInterval s of
        None \<Rightarrow> s
      | Some h \<Rightarrow> (clearInterval s h)\<lparr>screenRefreshInterval := None\<rparr>)"

subsection \<open>Wireless pairing\<close>

definition stopWirelessPolling :: "app \<Rightarrow> app" where
  "stopWirelessPolling s =
     (case wirelessPollingInterval s of
        None \<Rightarrow> s
      | Some h \<Rightarrow> (clearInterval s h)\<lparr>wirelessPollingInterval := None\<rparr>)"

definition startWirelessPolling :: "app \<Rightarrow> app" where
  "startWirelessPolling s =
     (let s1 = stopWirelessPolling s; (h, s2) = setInterval s1 WirelessPollTick 1000
      in s2\<lparr>wirelessPollingInterval := Some h\<rparr>)"

definition hideConnectModal :: "app \<Rightarrow> app" where
  "hideConnectModal s = stopWirelessPolling (s\<lparr>connectModal_hidden := True\<rparr>)"

definition showLoading :: "app \<Rightarrow> jstring \<Rightarrow> app" where
  "showLoading s t = s\<lparr>loading_text := t, loadingOverlay_hidden := False\<rparr>"

definition hideLoading :: "app \<Rightarrow> app" where
  "hideLoading s = s\<lparr>loadingOverlay_hidden := True\<rparr>"

definition icon_pairing :: jstring where
  "icon_pairing = [0x23F3]"
definition icon_success :: jstring where
  "icon_success = [0x2705]"
definition icon_error :: jstring where
  "icon_error = [0x274C]"

definition updateWirelessStatus :: "app \<Rightarrow> jstring \<Rightarrow> jstring \<Rightarrow> app" where
  "updateWirelessStatus s msg ty =
     s\<lparr>wirelessStatus_message := msg,
       wirelessStatus_className := ascii ''wireless-status '' @ ty,
       wirelessStatus_icon :=
         (if ty = ascii ''pairing'' then icon_pairing
          else if ty = ascii ''success'' then icon_success
          else if ty = ascii ''error'' then icon_error
          else wirelessStatus_icon s)\<rparr>"

text \<open>
  A value put into a template literal: \<open>undefined\<close>, a string, or a number that is a
  natural number below \<open>10^21\<close>, which is printed in decimal (a port is).
\<close>

datatype jsval = JUndefined | JStr jstring | JNum nat

fun decimal :: "nat \<Rightarrow> jstring" where
  "decimal n = (if n < 10 then [0x30 + n] else decimal (n div 10) @ [0x30 + n mod 10])"

declare decimal.simps [simp del]

fun toString :: "jsval \<Rightarrow> jstring" where
  "toString JUndefined = ascii ''undefined''"
| "toString (JStr t) = t"
| "toString (JNum n) = decimal n"

definition msg_device_addr :: jstring where
  "msg_device_addr = [0x8BBE, 0x5907, 0x5730, 0x5740, 0x003A, 0x0020]"

definition showWirelessSuccess :: "app \<Rightarrow> jsval \<Rightarrow> jsval \<Rightarrow> app" where
  "showWirelessSuccess s ip port =
     s\<lparr>wirelessPairing_hidden := True, wirelessSuccess_hidden := False,
       wirelessDevice_text := msg_device_addr @ toString ip @ ascii '':'' @ toString port\<rparr>"

definition msg_connecting_wireless :: jstring where
  "msg_connecting_wireless =
     [0x6B63, 0x5728, 0x8FDE, 0x63A5, 0x65E0, 0x7EBF, 0x8BBE, 0x5907, 0x002E, 0x002E, 0x002E]"

text \<open>\<open>connectWirelessDevice\<close> up to its \<open>fetch\<close>.\<close>

definition connectWirelessDevice :: "app \<Rightarrow> jsval \<Rightarrow> jsval \<Rightarrow> app" where
  "connectWirelessDevice s ip port =
     (let serial = toString ip @ ascii '':'' @ toString port;
          s1 = hideConnectModal s;
          s2 = showLoading s1 msg_connecting_wireless
      in s2\<lparr>fetches := fetches s2 @ [DeviceConnect serial]\<rparr>)"

record device_info =
  brand :: jstring
  model :: jstring

record connect_data =
  conn_success :: bool
  conn_message :: "jstring option"
  conn_data :: "device_info option"

definition updateConnectionStatus :: "app \<Rightarrow> bool \<Rightarrow> device_info option \<Rightarrow> app" where
  "updateConnectionStatus s connected info =
     (if connected then
        s\<lparr>deviceStatus_connected := True,
          deviceInfo_text :=
            (case info of None \<Rightarrow> deviceInfo_text s | Some i \<Rightarrow> brand i @ ascii '' '' @ model i)\<rparr>
      else s\<lparr>deviceStatus_connected := False, deviceInfo_text := []\<rparr>)"

definition showScreen :: "app \<Rightarrow> app" where
  "showScreen s = s\<lparr>screen_shown := True\<rparr>"

definition msg_wireless_connected :: jstring where
  "msg_wireless_connected =
     [0x65E0, 0x7EBF, 0x8BBE, 0x5907, 0x8FDE, 0x63A5, 0x6210, 0x529F, 0xFF01]"

definition msg_connect_failed :: jstring where
  "msg_connect_failed = [0x8FDE, 0x63A5, 0x5931, 0x8D25]"

text \<open>\<open>connectWirelessDevice\<close> after the reply, with its \<open>catch\<close> and \<open>finally\<close>.\<close>

definition connectWirelessDevice_reply :: "app \<Rightarrow> connect_data reply \<Rightarrow> app" where
  "connectWirelessDevice_reply s r =
     hideLoading
       (case r of
          Rejected m \<Rightarrow> showToast s (msg_connect_failed @ ascii '': '' @ m) (ascii ''error'')
        | Replied d \<Rightarrow>
            if conn_success d then
              (let s1 = s\<lparr>isConnected := True\<rparr>;
                   s2 = updateConnectionStatus s1 True (conn_data d);
                   s3 = showScreen s2;
                   s4 = startScreenRefresh s3
               in showToast s4 msg_wireless_connected (ascii ''success''))
            else showToast s (or_else (conn_message d) msg_connect_failed) (ascii ''error''))"

text \<open>The body of a status reply.\<close>

record status_data =
  success :: bool
  status :: "jstring option"
  status_message :: "jstring option"
  device_ip :: jsval
  device_port :: jsval

definition msg_scan_qr :: jstring where
  "msg_scan_qr =
     [0x8BF7, 0x4F7F, 0x7528, 0x624B, 0x673A, 0x626B, 0x63CF, 0x4E8C, 0x7EF4, 0x7801]"

definition msg_pairing :: jstring where
  "msg_pairing = [0x6B63, 0x5728, 0x914D, 0x5BF9, 0x002E, 0x002E, 0x002E]"

definition msg_pair_success :: jstring where
  "msg_pair_success =
     [0x914D, 0x5BF9, 0x6210, 0x529F, 0xFF0C, 0x7B49, 0x5F85, 0x8FDE, 0x63A5, 0x002E, 0x002E,
      0x002E]"

definition msg_connecting :: jstring where
  "msg_connecting = [0x6B63, 0x5728, 0x8FDE, 0x63A5, 0x8BBE, 0x5907, 0x002E, 0x002E, 0x002E]"

definition msg_op_failed :: jstring where
  "msg_op_failed = [0x64CD, 0x4F5C, 0x5931, 0x8D25]"

definition msg_timeout :: jstring where
  "msg_timeout = [0x914D, 0x5BF9, 0x8D85, 0x65F6, 0xFF0C, 0x8BF7, 0x91CD, 0x8BD5]"

text \<open>The \<open>switch\<close> of \<open>handleWirelessStatus\<close>, case by case; no case matches otherwise.\<close>

definition handleWirelessStatus :: "app \<Rightarrow> status_data \<Rightarrow> app" where
  "handleWirelessStatus s d =
     (let st = status d; msg = or_else (status_message d) []
      in if st = Some (ascii ''waiting_scan'') then
           updateWirelessStatus s msg_scan_qr (ascii ''pairing'')
         else if st = Some (ascii ''pairing'') then
           updateWirelessStatus s msg_pairing (ascii ''pairing'')
         else if st = Some (ascii ''pair_success'') then
           updateWirelessStatus s msg_pair_success (ascii ''pairing'')
         else if st = Some (ascii ''connecting'') then
           updateWirelessStatus s msg_connecting (ascii ''pairing'')
         else if st = Some (ascii ''connected'') then
           (let s1 = stopWirelessPolling s;
                s2 = showWirelessSuccess s1 (device_ip d) (device_port d)
            in connectWirelessDevice s2 (device_ip d) (device_port d))
         else if st = Some (ascii ''pair_failed'') \<or> st = Some (ascii ''connect_failed'')
                 \<or> st = Some (ascii ''error'') then
           updateWirelessStatus s (or_else (Some msg) msg_op_failed) (ascii ''error'')
         else if st = Some (ascii ''timeout'') then
           stopWirelessPolling (updateWirelessStatus s msg_timeout (ascii ''error''))
         else s)"

text \<open>
  One run of the callback of \<open>startWirelessPolling\<close>, with the reply to its \<open>fetch\<close>. A
  rejected request is caught and logged.
\<close>

definition wirelessPollTick :: "app \<Rightarrow> status_data reply \<Rightarrow> app" where
  "wirelessPollTick s r =
     (let s1 = s\<lparr>fetches := fetches s @ [WirelessStatus]\<rparr>
      in case r of
           Rejected m \<Rightarrow> s1
         | Replied d \<Rightarrow> if success d then handleWirelessStatus s1 d else s1)"

subsection \<open>The chat log\<close>

text \<open>
  \<open>escapeHtml(text)\<close> gives \<open>''\<close> for a falsy text and markup that shows the text
  otherwise; assigning \<open>undefined\<close> or \<open>null\<close> to \<open>textContent\<close> shows \<open>''\<close> too.
\<close>

definition shown :: "jstring option \<Rightarrow> jstring" where
  "shown m = (case m of None \<Rightarrow> [] | Some t \<Rightarrow> t)"

definition addMessage :: "app \<Rightarrow> jstring \<Rightarrow> jstring \<Rightarrow> app" where
  "addMessage s role content =
     s\<lparr>chatContainer := chatContainer s @ [Message role (shown (Some content))]\<rparr>"

definition addSystemMessage ::
  "app \<Rightarrow> jstring option \<Rightarrow> jstring \<Rightarrow> jstring option \<Rightarrow> debug_info option \<Rightarrow> app" where
  "addSystemMessage s m ty act dbg =
     s\<lparr>chatContainer := chatContainer s @ [SystemMessage ty (shown m) act dbg]\<rparr>"

text \<open>\<open>querySelector\<close> finds the first element of the class, in document order.\<close>

fun is_thinking :: "entry \<Rightarrow> bool" where
  "is_thinking (Thinking t) = True"
| "is_thinking e = False"

fun set_first_thinking :: "jstring \<Rightarrow> entry list \<Rightarrow> entry list" where
  "set_first_thinking t [] = []"
| "set_first_thinking t (e # es) =
     (if is_thinking e then Thinking t # es else e # set_first_thinking t es)"

fun remove_first :: "(entry \<Rightarrow> bool) \<Rightarrow> entry list \<Rightarrow> entry list" where
  "remove_first p [] = []"
| "remove_first p (e # es) = (if p e then es else e # remove_first p es)"

definition updateOrAddThinking :: "app \<Rightarrow> jstring option \<Rightarrow> app" where
  "updateOrAddThinking s m =
     (if list_ex is_thinking (chatContainer s) then
        s\<lparr>chatContainer := set_first_thinking (shown m) (chatContainer s)\<rparr>
      else s\<lparr>chatContainer := chatContainer s @ [Thinking (shown m)]\<rparr>)"

definition removeThinking :: "app \<Rightarrow> app" where
  "removeThinking s = s\<lparr>chatContainer := remove_first is_thinking (chatContainer s)\<rparr>"

subsection \<open>Dispatch of a record\<close>

text \<open>The two steps of \<open>handleStepResult\<close>: the screenshot, then the \<open>switch\<close> on the type.\<close>

definition update_screenshot :: "app \<Rightarrow> event \<Rightarrow> app" where
  "update_screenshot s e =
     (case screenshot e of
        None \<Rightarrow> s
      | Some src \<Rightarrow> if src \<noteq> [] then s\<lparr>deviceScreen_src := src\<rparr> else s)"

definition switch_type :: "app \<Rightarrow> event \<Rightarrow> app" where
  "switch_type s e =
     (let t = ev_type e
      in if t = Some (ascii ''start'') \<or> t = Some (ascii ''info'') \<or> t = Some (ascii ''update'') then
           addSystemMessage s (message e) (ascii ''info'') None None
         else if t = Some (ascii ''thinking'') then
           updateOrAddThinking s (message e)
         else if t = Some (ascii ''action'') then
           addSystemMessage (removeThinking s) (message e) (ascii ''action'') (action e) (debug e)
         else if t = Some (ascii ''done'') then
           addSystemMessage s (message e) (ascii ''success'') None None
         else if t = Some (ascii ''completed'') then
           addSystemMessage s (message e) (ascii ''success'') None (debug e)
         else if t = Some (ascii ''failed'') \<or> t = Some (ascii ''error'') then
           addSystemMessage (removeThinking s) (message e) (ascii ''error'') None (debug e)
         else if t = Some (ascii ''stopped'') then
           addSystemMessage (removeThinking s) (message e) (ascii ''warning'') None None
         else if t = Some (ascii ''warning'') then
           addSystemMessage s (message e) (ascii ''warning'') None None
         else s)"

text \<open>Reading \<open>data.screenshot\<close> of \<open>null\<close> throws a TypeError before anything is done.\<close>

definition handleStepResult :: "app \<Rightarrow> json \<Rightarrow> js_error + app" where
  "handleStepResult s data =
     (case data of
        JNull \<Rightarrow> Inl (Error (ascii ''TypeError''))
      | JData e \<Rightarrow> Inr (switch_type (update_screenshot s e) e))"

subsection \<open>\<open>executeTask\<close>\<close>

definition setExecutingState :: "app \<Rightarrow> bool \<Rightarrow> app" where
  "setExecutingState s executing =
     s\<lparr>isExecuting := executing, btnSend_hidden := executing, btnStop_hidden := \<not> executing,
       messageInput_disabled := executing\<rparr>"

text \<open>
  How the response of \<open>/api/chat/execute\<close> goes: \<open>fetch\<close> is rejected (or the
  response has no body to read), or the body delivers fragments and then
  \<open>reader.read()\<close> reports the end or is rejected. The message is \<open>error.message\<close>.
\<close>

datatype ending = Closed | Failed jstring

datatype transport = FetchFailed jstring | Body "byte list list" ending

text \<open>The returns of \<open>executeTask\<close>: the three early ones, and the end of the method.\<close>

datatype outcome = EmptyTask | NotConnected | AlreadyRunning | Finished

definition msg_executing :: jstring where
  "msg_executing = [0x6B63, 0x5728, 0x6267, 0x884C, 0x4E2D, 0x002E, 0x002E, 0x002E]"

definition msg_exec_error :: jstring where
  "msg_exec_error = [0x274C, 0x0020, 0x6267, 0x884C, 0x51FA, 0x9519, 0x003A, 0x0020]"

text \<open>From the user message to the \<open>fetch\<close> of the stream.\<close>

definition executeTask_begin :: "app \<Rightarrow> jstring \<Rightarrow> app" where
  "executeTask_begin s task =
     (let s1 = s\<lparr>messageInput_value := []\<rparr>;
          s2 = s1\<lparr>chatContainer := remove_first (\<lambda>e. e = Welcome) (chatContainer s1)\<rparr>;
          s3 = addMessage s2 (ascii ''user'') task;
          s4 = setExecutingState s3 True
      in s4\<lparr>fetches := fetches s4 @ [ChatExecute task]\<rparr>)"

text \<open>The \<open>try\<close> block: the state it leaves, and the exception that ended it, if any.\<close>

definition executeTask_try :: "parser \<Rightarrow> app \<Rightarrow> transport \<Rightarrow> app \<times> js_error option" where
  "executeTask_try parse s tr =
     (case tr of
        FetchFailed m \<Rightarrow> (s, Some (Error m))
      | Body vals e \<Rightarrow>
          (fst (read_loop parse handleStepResult (s, new_reader) vals),
           case e of Closed \<Rightarrow> None | Failed m \<Rightarrow> Some (Error m)))"

definition executeTask :: "parser \<Rightarrow> app \<Rightarrow> transport \<Rightarrow> outcome \<times> app" where
  "executeTask parse s tr =
     (let task = trim (messageInput_value s)
      in if task = [] then (EmptyTask, s)
         else if \<not> isConnected s then
           (NotConnected, showToast s msg_connect_first (ascii ''warning''))
         else if isExecuting s then
           (AlreadyRunning, showToast s msg_executing (ascii ''warning''))
         else
           (let (s1, thrown) = executeTask_try parse (executeTask_begin s task) tr;
                s2 = (case thrown of
                        None \<Rightarrow> s1
                      | Some (Error m) \<Rightarrow>
                          addSystemMessage s1 (Some (msg_exec_error @ m)) (ascii ''error'') None None);
                s3 = setExecutingState s2 False
            in (Finished, refreshScreen s3)))"

subsection \<open>Notions the properties are stated with\<close>

text \<open>
  The record a complete line stands for, and the complete lines of a byte sequence: the
  text of all bytes, cut at the newlines, without the unterminated rest.
\<close>

definition line_record :: "parser \<Rightarrow> jstring \<Rightarrow> json option" where
  "line_record parse line =
     (if startsWith line data_prefix then parse (slice_from 6 line) else None)"

definition complete_lines :: "byte list \<Rightarrow> jstring list" where
  "complete_lines bytes = butlast (split newline (fst (decode new_TextDecoder bytes)))"

definition buffer_clean :: "reader \<Rightarrow> bool" where
  "buffer_clean r = (newline \<notin> set (buffer r))"

text \<open>
  A stand-in for \<open>JSON.parse\<close> on concrete inputs: \<open>null\<close> is read as \<open>null\<close>, a
  text that opens a brace as a record of type \<open>thinking\<close> with the text as its message,
  and anything else is a syntax error.
\<close>

definition example_parse :: parser where
  "example_parse t =
     (if t = ascii ''null'' then Some JNull
      else if startsWith t (ascii ''{'') then
        Some (JData \<lparr>ev_type = Some (ascii ''thinking''), message = Some t, screenshot = None,
                      action = None, debug = None\<rparr>)
      else None)"

text \<open>Every live timer of the status poll is the one the field holds.\<close>

definition poll_owned :: "app \<Rightarrow> bool" where
  "poll_owned s = list_all (\<lambda>h. wirelessPollingInterval s = Some h) (live s WirelessPollTick)"

subsection \<open>Concrete inputs\<close>

text \<open>Records of the stream: one with an empty screenshot, a thought, an action.\<close>

definition empty_shot_event :: event where
  "empty_shot_event =
     \<lparr>ev_type = Some (ascii ''info''), message = Some (ascii ''hi''), screenshot = Some [],
      action = None, debug = None\<rparr>"

definition thinking_event :: "jstring \<Rightarrow> event" where
  "thinking_event t =
     \<lparr>ev_type = Some (ascii ''thinking''), message = Some t, screenshot = None, action = None,
      debug = None\<rparr>"

definition action_event :: event where
  "action_event =
     \<lparr>ev_type = Some (ascii ''action''), message = Some (ascii ''tap''),
      screenshot = Some (ascii ''shot.png''), action = Some (ascii ''{}''), debug = None\<rparr>"

text \<open>
  Pages: a task running and only blanks typed; a device connected and a task typed; the
  status poll started.
\<close>

definition busy_app :: app where
  "busy_app =
     constructor\<lparr>isConnected := True, isExecuting := True, messageInput_value := ascii ''  ''\<rparr>"

definition ready_app :: app where
  "ready_app = constructor\<lparr>isConnected := True, messageInput_value := ascii '' go ''\<rparr>"

definition polling_app :: app where
  "polling_app = startWirelessPolling constructor"

text \<open>Replies of the server: a pairing status with an address, a successful connect.\<close>

definition status_reply :: "string \<Rightarrow> status_data" where
  "status_reply st =
     \<lparr>success = True, status = Some (ascii st), status_message = None,
      device_ip = JStr (ascii ''10.0.0.5''), device_port = JNum 5555\<rparr>"

definition connect_ok :: "connect_data reply" where
  "connect_ok =
     Replied \<lparr>conn_success = True, conn_message = None,
              conn_data = Some \<lparr>brand = ascii ''Acme'', model = ascii ''One''\<rparr>\<rparr>"

section \<open>Properties of the stream reader\<close>

subsection \<open>Splitting and decoding distribute over concatenation\<close>

lemma split_from_ne: "split_from sep cur xs \<noteq> []"
  by (induction xs arbitrary: cur) auto

lemma split_from_append:
  "split_from sep cur (xs @ ys) =
     butlast (split_from sep cur xs) @ split_from sep (last (split_from sep cur xs)) ys"
  by (induction xs arbitrary: cur) (auto simp: split_from_ne)

lemma split_from_shift:
  "sep \<notin> set u \<Longrightarrow> split_from sep cur (u @ ys) = split_from sep (cur @ u) ys"
  by (induction u arbitrary: cur) auto

lemma last_split_from_clean:
  "sep \<notin> set cur \<Longrightarrow> sep \<notin> set (last (split_from sep cur xs))"
  by (induction xs arbitrary: cur) (auto simp: split_from_ne)

text \<open>Splitting a text in two parts: the last segment of the first part is carried over.\<close>

lemma split_append:
  "split sep (xs @ ys) = butlast (split sep xs) @ split sep (last (split sep xs) @ ys)"
proof -
  have "sep \<notin> set (last (split_from sep [] xs))"
    by (rule last_split_from_clean) simp
  then have "split_from sep [] (last (split_from sep [] xs) @ ys)
           = split_from sep (last (split_from sep [] xs)) ys"
    using split_from_shift [of sep "last (split_from sep [] xs)" "[]" ys] by simp
  then show ?thesis
    unfolding split_def by (simp add: split_from_append)
qed

lemma split_clean: "sep \<notin> set s \<Longrightarrow> split sep s = [s]"
  unfolding split_def using split_from_shift [of sep s "[]" "[]"] by simp

lemma utf8_run_append:
  "utf8_run d (xs @ ys) =
     (fst (utf8_run d xs) @ fst (utf8_run (snd (utf8_run d xs)) ys),
      snd (utf8_run (snd (utf8_run d xs)) ys))"
  by (induction xs arbitrary: d) (auto simp: split_beta)

lemma serialize_append:
  "serialize seen (xs @ ys) =
     (fst (serialize seen xs) @ fst (serialize (snd (serialize seen xs)) ys),
      snd (serialize (snd (serialize seen xs)) ys))"
  by (induction xs arbitrary: seen) (auto simp: split_beta)

text \<open>Two calls of the streaming decoder give the text of one call on all the bytes.\<close>

lemma decode_append:
  "decode td (xs @ ys) =
     (fst (decode td xs) @ fst (decode (snd (decode td xs)) ys),
      snd (decode (snd (decode td xs)) ys))"
  by (simp add: decode_def split_beta utf8_run_append serialize_append)

lemma for_lines_append:
  "for_lines parse h s (ls @ ms) = for_lines parse h (for_lines parse h s ls) ms"
  by (induction ls arbitrary: s) auto

subsection \<open>Two rounds of the loop are one round on the joined fragment\<close>

lemma on_chunk_append:
  "on_chunk parse h sr (xs @ ys) = on_chunk parse h (on_chunk parse h sr xs) ys"
proof -
  obtain t1 d1 where a: "decode (decoder (snd sr)) xs = (t1, d1)" by force
  obtain t2 d2 where b: "decode d1 ys = (t2, d2)" by force
  have ab: "decode (decoder (snd sr)) (xs @ ys) = (t1 @ t2, d2)"
    by (simp add: decode_append a b)
  let ?B = "buffer (snd sr) @ t1"
  have sp: "split newline (buffer (snd sr) @ t1 @ t2) =
        butlast (split newline ?B) @ split newline (last (split newline ?B) @ t2)"
    using split_append [of newline ?B t2] by simp
  have ne: "split newline (last (split newline ?B) @ t2) \<noteq> []"
    by (simp add: split_def split_from_ne)
  show ?thesis
    by (simp add: on_chunk_def Let_def a b ab sp ne butlast_append for_lines_append)
qed

lemma on_chunk_clean: "buffer_clean (snd (on_chunk parse h sr val))"
  by (simp add: on_chunk_def Let_def split_beta buffer_clean_def split_def last_split_from_clean)

lemma on_chunk_Nil: "buffer_clean (snd sr) \<Longrightarrow> on_chunk parse h sr [] = sr"
  by (cases sr) (simp add: on_chunk_def Let_def decode_def buffer_clean_def split_clean)

lemma read_loop_concat:
  "buffer_clean (snd sr) \<Longrightarrow> read_loop parse h sr vals = on_chunk parse h sr (concat vals)"
proof (induction vals arbitrary: sr)
  case Nil
  then show ?case by (simp add: on_chunk_Nil)
next
  case (Cons v vs)
  have "read_loop parse h (on_chunk parse h sr v) vs
      = on_chunk parse h (on_chunk parse h sr v) (concat vs)"
    by (rule Cons.IH) (rule on_chunk_clean)
  then show ?case by (simp add: on_chunk_append)
qed

lemma new_reader_clean: "buffer_clean new_reader"
  by (simp add: buffer_clean_def new_reader_def)

lemma read_loop_new_reader:
  "read_loop parse h (s, new_reader) vals = on_chunk parse h (s, new_reader) (concat vals)"
  by (rule read_loop_concat) (simp add: new_reader_clean)

lemma for_lines_record_it:
  "for_lines parse record_it rs ls = rs @ List.map_filter (line_record parse) ls"
  by (induction ls arbitrary: rs)
     (auto simp: on_line_def line_record_def record_it_def List.map_filter_simps
           split: option.splits)

lemma stream_records_lines:
  "stream_records parse vals = List.map_filter (line_record parse) (complete_lines (concat vals))"
  unfolding stream_records_def read_loop_new_reader
  by (simp add: on_chunk_def Let_def split_beta new_reader_def complete_lines_def
      for_lines_record_it)

text \<open>
  C1. Two fragmentations of the same bytes, fed to the reader loop of \<open>executeTask\<close>
  from its start, hand the same records to the handler in the same order, and leave any
  handler state and the reader in the same state; empty fragments and cuts inside a
  line or inside a character are included. The records are those of the complete lines
  of the bytes, in the order of the lines.
\<close>

theorem fragmentation_invariant:
  assumes "concat vals = concat vals'"
  shows "stream_records parse vals = stream_records parse vals'
       \<and> read_loop parse h (s, new_reader) vals = read_loop parse h (s, new_reader) vals'
       \<and> stream_records parse vals
           = List.map_filter (line_record parse) (complete_lines (concat vals))"
  using assms by (simp add: read_loop_new_reader stream_records_lines)

text \<open>
  The line \<open>data: {\<close> followed by U+4F60 (three bytes) and a newline, cut once inside
  the character, and cut three times with an empty fragment: the same single record.
\<close>

theorem fragmentation_invariant_witness:
  "stream_records example_parse
      [[0x64, 0x61, 0x74, 0x61, 0x3A, 0x20, 0x7B, 0xE4], [0xBD, 0xA0, 0x0A]]
   = stream_records example_parse
      [[0x64, 0x61], [0x74, 0x61, 0x3A, 0x20, 0x7B, 0xE4, 0xBD], [], [0xA0, 0x0A]]
   \<and> stream_records example_parse
      [[0x64, 0x61, 0x74, 0x61, 0x3A, 0x20, 0x7B, 0xE4], [0xBD, 0xA0, 0x0A]]
   = [JData \<lparr>ev_type = Some (ascii ''thinking''), message = Some [0x7B, 0x4F60],
               screenshot = None, action = None, debug = None\<rparr>]"
proof -
  have h: "concat [[0x64, 0x61, 0x74, 0x61, 0x3A, 0x20, 0x7B, 0xE4], [0xBD, 0xA0, 0x0A :: byte]]
         = concat [[0x64, 0x61], [0x74, 0x61, 0x3A, 0x20, 0x7B, 0xE4, 0xBD], [], [0xA0, 0x0A]]"
    by simp
  have v: "stream_records example_parse
      [[0x64, 0x61, 0x74, 0x61, 0x3A, 0x20, 0x7B, 0xE4], [0xBD, 0xA0, 0x0A]]
   = [JData \<lparr>ev_type = Some (ascii ''thinking''), message = Some [0x7B, 0x4F60],
               screenshot = None, action = None, debug = None\<rparr>]"
    by (simp add: stream_records_def new_reader_def new_TextDecoder_def utf8_init_def
        on_chunk_def decode_def utf8_handler_def utf8_lead_def utf16_def split_def newline_def
        on_line_def startsWith_def slice_from_def data_prefix_def ascii_def record_it_def
        example_parse_def)
  show ?thesis
    by (rule conjI [OF fragmentation_invariant [OF h, THEN conjunct1] v])
qed

lemma on_line_skip:
  "\<not> startsWith line data_prefix \<or> parse (slice_from 6 line) = None
   \<Longrightarrow> on_line parse h s line = s"
  by (auto simp: on_line_def)

text \<open>
  C6. A complete line without the prefix \<open>data: \<close>, or with the prefix and a rest that
  \<open>JSON.parse\<close> rejects, leaves the handler state as it is (no record is handed over),
  and the loop over the lines goes on as if the line were not there: the lines before
  and after it have the effect they have without it.
\<close>

theorem malformed_line_dropped:
  assumes "\<not> startsWith line data_prefix \<or> parse (slice_from 6 line) = None"
  shows "on_line parse h s line = s
       \<and> for_lines parse h s (before @ line # after) = for_lines parse h s (before @ after)"
  using assms by (simp add: for_lines_append on_line_skip)

text \<open>
  Four lines: a record, a line whose rest does not parse, a line without the prefix, a
  record. The two records are handed over, in order.
\<close>

theorem malformed_line_dropped_witness:
  "example_parse (slice_from 6 (ascii ''data: oops'')) = None
   \<and> for_lines example_parse record_it []
        [ascii ''data: {a'', ascii ''data: oops'', ascii ''event: x'', ascii ''data: {b'']
     = [JData \<lparr>ev_type = Some (ascii ''thinking''), message = Some (ascii ''{a''),
                 screenshot = None, action = None, debug = None\<rparr>,
        JData \<lparr>ev_type = Some (ascii ''thinking''), message = Some (ascii ''{b''),
                 screenshot = None, action = None, debug = None\<rparr>]"
proof -
  have h: "\<not> startsWith (ascii ''data: oops'') data_prefix
         \<or> example_parse (slice_from 6 (ascii ''data: oops'')) = None"
    by (simp add: startsWith_def slice_from_def data_prefix_def ascii_def example_parse_def)
  have e: "for_lines example_parse record_it []
          ([ascii ''data: {a''] @ [ascii ''event: x'', ascii ''data: {b''])
     = [JData \<lparr>ev_type = Some (ascii ''thinking''), message = Some (ascii ''{a''),
                 screenshot = None, action = None, debug = None\<rparr>,
        JData \<lparr>ev_type = Some (ascii ''thinking''), message = Some (ascii ''{b''),
                 screenshot = None, action = None, debug = None\<rparr>]"
    by (simp add: on_line_def startsWith_def slice_from_def data_prefix_def ascii_def
        record_it_def example_parse_def)
  have p: "example_parse (slice_from 6 (ascii ''data: oops'')) = None"
    by (simp add: startsWith_def slice_from_def ascii_def example_parse_def)
  show ?thesis
    using malformed_line_dropped [where line = "ascii ''data: oops''" and parse = example_parse
        and h = record_it and s = "[]" and before = "[ascii ''data: {a'']"
        and after = "[ascii ''event: x'', ascii ''data: {b'']", OF h, THEN conjunct2] e p
    by simp
qed

section \<open>Properties of the dispatch\<close>

subsection \<open>The thinking placeholder\<close>

lemma thinking_first:
  "list_ex is_thinking xs \<Longrightarrow>
     \<exists>pre u post. xs = pre @ Thinking u # post \<and> \<not> list_ex is_thinking pre"
proof (induction xs)
  case Nil
  then show ?case by simp
next
  case (Cons x xs)
  show ?case
  proof (cases "is_thinking x")
    case True
    then obtain u where "x = Thinking u" by (cases x) auto
    then have "x # xs = [] @ Thinking u # xs \<and> \<not> list_ex is_thinking []" by simp
    then show ?thesis by blast
  next
    case False
    with Cons obtain pre u post where "xs = pre @ Thinking u # post" "\<not> list_ex is_thinking pre"
      by auto
    with False have "x # xs = (x # pre) @ Thinking u # post \<and> \<not> list_ex is_thinking (x # pre)"
      by simp
    then show ?thesis by blast
  qed
qed

lemma set_first_thinking_at:
  "\<not> list_ex is_thinking pre \<Longrightarrow>
     set_first_thinking t (pre @ Thinking u # post) = pre @ Thinking t # post"
  by (induction pre) auto

lemma remove_first_thinking_at:
  "\<not> list_ex is_thinking pre \<Longrightarrow>
     remove_first is_thinking (pre @ Thinking u # post) = pre @ post"
  by (induction pre) auto

lemma chat_update_screenshot: "chatContainer (update_screenshot s e) = chatContainer s"
  by (simp add: update_screenshot_def split: option.splits)

lemma thinking_step:
  assumes "ev_type e = Some (ascii ''thinking'')"
  shows "handleStepResult s (JData e) =
     Inr ((update_screenshot s e)\<lparr>chatContainer :=
        (if list_ex is_thinking (chatContainer s)
         then set_first_thinking (shown (message e)) (chatContainer s)
         else chatContainer s @ [Thinking (shown (message e))])\<rparr>)"
  using assms
  by (simp add: handleStepResult_def switch_type_def updateOrAddThinking_def ascii_def
      chat_update_screenshot)

lemma action_step:
  assumes "ev_type e = Some (ascii ''action'')"
  shows "handleStepResult s (JData e) =
     Inr ((update_screenshot s e)\<lparr>chatContainer :=
        remove_first is_thinking (chatContainer s)
        @ [SystemMessage (ascii ''action'') (shown (message e)) (action e) (debug e)]\<rparr>)"
  using assms
  by (simp add: handleStepResult_def switch_type_def removeThinking_def addSystemMessage_def
      ascii_def chat_update_screenshot)

text \<open>Every dispatch keeps the log at no more than one placeholder.\<close>

lemma count_set_first_thinking:
  "length (filter is_thinking (set_first_thinking t xs)) = length (filter is_thinking xs)"
  by (induction xs) auto

lemma count_remove_first:
  "length (filter is_thinking (remove_first is_thinking xs)) \<le> length (filter is_thinking xs)"
  by (induction xs) auto

lemma count_none: "\<not> list_ex is_thinking xs \<Longrightarrow> filter is_thinking xs = []"
  by (simp add: list_ex_iff filter_empty_conv)

lemma keeps_addSystemMessage:
  "length (filter is_thinking (chatContainer s)) \<le> 1 \<Longrightarrow>
     length (filter is_thinking (chatContainer (addSystemMessage s m ty act dbg))) \<le> 1"
  by (simp add: addSystemMessage_def)

lemma keeps_removeThinking:
  "length (filter is_thinking (chatContainer s)) \<le> 1 \<Longrightarrow>
     length (filter is_thinking (chatContainer (removeThinking s))) \<le> 1"
  using count_remove_first [of "chatContainer s"] by (simp add: removeThinking_def)

lemma keeps_updateOrAddThinking:
  "length (filter is_thinking (chatContainer s)) \<le> 1 \<Longrightarrow>
     length (filter is_thinking (chatContainer (updateOrAddThinking s m))) \<le> 1"
  by (simp add: updateOrAddThinking_def count_set_first_thinking count_none)

lemma thinking_count_switch_type:
  assumes "length (filter is_thinking (chatContainer s)) \<le> 1"
  shows "length (filter is_thinking (chatContainer (switch_type s e))) \<le> 1"
  unfolding switch_type_def Let_def
  by (intro keeps_addSystemMessage keeps_removeThinking keeps_updateOrAddThinking assms
      if_split [where P = "\<lambda>x. length (filter is_thinking (chatContainer x)) \<le> 1", THEN iffD2]
      conjI impI)

lemma thinking_count_preserved:
  assumes "length (filter is_thinking (chatContainer s)) \<le> 1"
    and "handleStepResult s d = Inr s'"
  shows "length (filter is_thinking (chatContainer s')) \<le> 1"
proof (cases d)
  case JNull
  with assms(2) show ?thesis by (simp add: handleStepResult_def)
next
  case (JData e)
  with assms(2) have "s' = switch_type (update_screenshot s e) e"
    by (simp add: handleStepResult_def)
  moreover have "length (filter is_thinking (chatContainer (update_screenshot s e))) \<le> 1"
    using assms(1) by (simp add: chat_update_screenshot)
  then have "length (filter is_thinking
      (chatContainer (switch_type (update_screenshot s e) e))) \<le> 1"
    by (rule thinking_count_switch_type)
  ultimately show ?thesis by simp
qed

text \<open>
  C7. In a log with at most one thinking placeholder, the records thinking, thinking,
  action are dispatched in this order. After the first there is exactly one placeholder,
  with the first message; after the second the log is the same but for the text of the
  placeholder, which is the second message (replaced where it stands, nothing appended);
  the action takes the placeholder out and appends one message of type \<open>action\<close> with
  the payload of the record. The rest of the log (\<open>pre\<close>, \<open>post\<close>) has no placeholder.
\<close>

theorem thinking_coalesced:
  assumes one: "length (filter is_thinking (chatContainer s)) \<le> 1"
    and t1: "ev_type e1 = Some (ascii ''thinking'')"
    and t2: "ev_type e2 = Some (ascii ''thinking'')"
    and t3: "ev_type e3 = Some (ascii ''action'')"
  shows "\<exists>s1 s2 s3 pre post.
           handleStepResult s (JData e1) = Inr s1
         \<and> handleStepResult s1 (JData e2) = Inr s2
         \<and> handleStepResult s2 (JData e3) = Inr s3
         \<and> \<not> list_ex is_thinking (pre @ post)
         \<and> (chatContainer s = pre @ post \<or> (\<exists>u. chatContainer s = pre @ Thinking u # post))
         \<and> chatContainer s1 = pre @ Thinking (shown (message e1)) # post
         \<and> chatContainer s2 = pre @ Thinking (shown (message e2)) # post
         \<and> chatContainer s3 =
             pre @ post
             @ [SystemMessage (ascii ''action'') (shown (message e3)) (action e3) (debug e3)]"
proof -
  obtain pre post where
    pp: "\<not> list_ex is_thinking (pre @ post)"
    and c0: "chatContainer s = pre @ post \<and> post = [] \<or> (\<exists>u. chatContainer s = pre @ Thinking u # post)"
  proof (cases "list_ex is_thinking (chatContainer s)")
    case False
    then have "\<not> list_ex is_thinking (chatContainer s @ [])
      \<and> (chatContainer s = chatContainer s @ [] \<and> ([]::entry list) = []
          \<or> (\<exists>u. chatContainer s = chatContainer s @ Thinking u # []))"
      by simp
    then show ?thesis using that by blast
  next
    case True
    then obtain pre u post where x: "chatContainer s = pre @ Thinking u # post"
      and p: "\<not> list_ex is_thinking pre"
      using thinking_first by blast
    from one x have "filter is_thinking post = []" by simp
    then have "\<not> list_ex is_thinking post"
      by (simp add: list_ex_iff filter_empty_conv)
    with p x show ?thesis using that [of pre post] by auto
  qed
  from pp have pre: "\<not> list_ex is_thinking pre" by simp
  let ?s1 = "(update_screenshot s e1)\<lparr>chatContainer := pre @ Thinking (shown (message e1)) # post\<rparr>"
  let ?s2 = "(update_screenshot ?s1 e2)\<lparr>chatContainer := pre @ Thinking (shown (message e2)) # post\<rparr>"
  let ?s3 = "(update_screenshot ?s2 e3)\<lparr>chatContainer := pre @ post
             @ [SystemMessage (ascii ''action'') (shown (message e3)) (action e3) (debug e3)]\<rparr>"
  have 1: "handleStepResult s (JData e1) = Inr ?s1"
    using c0 pp
    by (auto simp: thinking_step [OF t1] set_first_thinking_at [OF pre] chat_update_screenshot)
  have 2: "handleStepResult ?s1 (JData e2) = Inr ?s2"
    by (simp add: thinking_step [OF t2] set_first_thinking_at [OF pre] chat_update_screenshot)
  have 3: "handleStepResult ?s2 (JData e3) = Inr ?s3"
    by (simp add: action_step [OF t3] remove_first_thinking_at [OF pre] chat_update_screenshot)
  have "chatContainer s = pre @ post \<or> (\<exists>u. chatContainer s = pre @ Thinking u # post)"
    using c0 by blast
  with 1 2 3 pp show ?thesis
    by (intro exI [of _ ?s1] exI [of _ ?s2] exI [of _ ?s3] exI [of _ pre] exI [of _ post]) simp
qed

text \<open>
  From the page as constructed: the welcome block stays, the placeholder shows \<open>A\<close>, then
  \<open>B\<close>, then gives way to the action message.
\<close>

theorem thinking_coalesced_witness:
  "length (filter is_thinking (chatContainer constructor)) \<le> 1
   \<and> (\<exists>s1 s2 s3.
         handleStepResult constructor (JData (thinking_event (ascii ''A''))) = Inr s1
       \<and> handleStepResult s1 (JData (thinking_event (ascii ''B''))) = Inr s2
       \<and> handleStepResult s2 (JData action_event) = Inr s3
       \<and> chatContainer s1 = [Welcome, Thinking (ascii ''A'')]
       \<and> chatContainer s2 = [Welcome, Thinking (ascii ''B'')]
       \<and> chatContainer s3
           = [Welcome, SystemMessage (ascii ''action'') (ascii ''tap'') (Some (ascii ''{}'')) None])"
proof -
  have one: "length (filter is_thinking (chatContainer constructor)) \<le> 1"
    by (simp add: constructor_def)
  have t1: "ev_type (thinking_event (ascii ''A'')) = Some (ascii ''thinking'')"
    and t2: "ev_type (thinking_event (ascii ''B'')) = Some (ascii ''thinking'')"
    and t3: "ev_type action_event = Some (ascii ''action'')"
    by (simp_all add: thinking_event_def action_event_def)
  from thinking_coalesced [OF one t1 t2 t3]
  obtain s1 s2 s3 pre post where
    h: "handleStepResult constructor (JData (thinking_event (ascii ''A''))) = Inr s1"
      "handleStepResult s1 (JData (thinking_event (ascii ''B''))) = Inr s2"
      "handleStepResult s2 (JData action_event) = Inr s3"
    and np: "\<not> list_ex is_thinking (pre @ post)"
    and c0: "chatContainer constructor = pre @ post
         \<or> (\<exists>u. chatContainer constructor = pre @ Thinking u # post)"
    and c1: "chatContainer s1 = pre @ Thinking (shown (message (thinking_event (ascii ''A'')))) # post"
    and c2: "chatContainer s2 = pre @ Thinking (shown (message (thinking_event (ascii ''B'')))) # post"
    and c3: "chatContainer s3 = pre @ post
       @ [SystemMessage (ascii ''action'') (shown (message action_event)) (action action_event)
            (debug action_event)]"
    by blast
  have k1: "chatContainer s1 = [Welcome, Thinking (ascii ''A'')]"
    using h(1)
    by (auto simp: handleStepResult_def switch_type_def update_screenshot_def
        updateOrAddThinking_def thinking_event_def constructor_def shown_def ascii_def)
  with c1 have pp: "pre = [Welcome] \<and> post = []"
    by (cases pre; cases post) (auto simp: Cons_eq_append_conv append_eq_Cons_conv)
  from c2 c3 pp have "chatContainer s2 = [Welcome, Thinking (ascii ''B'')]"
    and "chatContainer s3
       = [Welcome, SystemMessage (ascii ''action'') (ascii ''tap'') (Some (ascii ''{}'')) None]"
    by (simp_all add: thinking_event_def action_event_def shown_def)
  with h k1 one show ?thesis by blast
qed

subsection \<open>The screenshot of a record\<close>

lemma frame_switch_type: "deviceScreen_src (switch_type s e) = deviceScreen_src s"
  by (simp add: switch_type_def Let_def addSystemMessage_def updateOrAddThinking_def
      removeThinking_def)

text \<open>
  C9, as the code has it. A record with a screenshot that is not the empty string sets
  the device frame to it before the \<open>switch\<close> on the type runs, whatever the type is,
  known or not; the \<open>switch\<close> leaves the frame alone, so the frame shows the screenshot
  when \<open>handleStepResult\<close> returns. A record whose screenshot is the empty string goes
  to the \<open>switch\<close> with the state as it is, and the frame is the one from before when
  \<open>handleStepResult\<close> returns.
\<close>

theorem screenshot_shown_first:
  assumes "screenshot e = Some src"
  shows "(src \<noteq> [] \<longrightarrow>
            handleStepResult s (JData e) = Inr (switch_type (s\<lparr>deviceScreen_src := src\<rparr>) e)
          \<and> deviceScreen_src (switch_type (s\<lparr>deviceScreen_src := src\<rparr>) e) = src)
       \<and> (src = [] \<longrightarrow>
            handleStepResult s (JData e) = Inr (switch_type s e)
          \<and> deviceScreen_src (switch_type s e) = deviceScreen_src s)"
  using assms by (simp add: handleStepResult_def update_screenshot_def frame_switch_type)

text \<open>
  An action with the screenshot \<open>shot.png\<close>, a record of a type the \<open>switch\<close> does
  not know with the same screenshot, and a record with the screenshot \<open>''\<close> on a page
  that shows \<open>prev.png\<close>.
\<close>

theorem screenshot_shown_first_witness:
  "screenshot action_event = Some (ascii ''shot.png'') \<and> ascii ''shot.png'' \<noteq> []
   \<and> handleStepResult constructor (JData action_event)
       = Inr (switch_type (constructor\<lparr>deviceScreen_src := ascii ''shot.png''\<rparr>) action_event)
   \<and> deviceScreen_src
         (switch_type (constructor\<lparr>deviceScreen_src := ascii ''shot.png''\<rparr>) action_event)
       = ascii ''shot.png''
   \<and> handleStepResult constructor
         (JData \<lparr>ev_type = Some (ascii ''mystery''), message = None,
                  screenshot = Some (ascii ''shot.png''), action = None, debug = None\<rparr>)
       = Inr (constructor\<lparr>deviceScreen_src := ascii ''shot.png''\<rparr>)
   \<and> screenshot empty_shot_event = Some []
   \<and> handleStepResult (constructor\<lparr>deviceScreen_src := ascii ''prev.png''\<rparr>)
         (JData empty_shot_event)
       = Inr (switch_type (constructor\<lparr>deviceScreen_src := ascii ''prev.png''\<rparr>)
                empty_shot_event)
   \<and> deviceScreen_src
         (switch_type (constructor\<lparr>deviceScreen_src := ascii ''prev.png''\<rparr>) empty_shot_event)
       = ascii ''prev.png''"
proof -
  have a: "screenshot action_event = Some (ascii ''shot.png'')"
    by (simp add: action_event_def)
  have b: "ascii ''shot.png'' \<noteq> []"
    by (simp add: ascii_def)
  have a': "screenshot \<lparr>ev_type = Some (ascii ''mystery''), message = None,
                  screenshot = Some (ascii ''shot.png''), action = None, debug = None\<rparr>
             = Some (ascii ''shot.png'')"
    by simp
  have c: "screenshot empty_shot_event = Some []"
    by (simp add: empty_shot_event_def)
  have u: "handleStepResult constructor
         (JData \<lparr>ev_type = Some (ascii ''mystery''), message = None,
                  screenshot = Some (ascii ''shot.png''), action = None, debug = None\<rparr>)
       = Inr (constructor\<lparr>deviceScreen_src := ascii ''shot.png''\<rparr>)"
    using screenshot_shown_first [OF a', of constructor, THEN conjunct1, THEN mp, OF b]
    by (simp add: switch_type_def ascii_def)
  have v: "handleStepResult constructor (JData action_event)
       = Inr (switch_type (constructor\<lparr>deviceScreen_src := ascii ''shot.png''\<rparr>) action_event)
     \<and> deviceScreen_src
         (switch_type (constructor\<lparr>deviceScreen_src := ascii ''shot.png''\<rparr>) action_event)
       = ascii ''shot.png''"
    by (rule screenshot_shown_first [OF a, of constructor, THEN conjunct1, THEN mp, OF b])
  have w: "handleStepResult (constructor\<lparr>deviceScreen_src := ascii ''prev.png''\<rparr>)
         (JData empty_shot_event)
       = Inr (switch_type (constructor\<lparr>deviceScreen_src := ascii ''prev.png''\<rparr>)
                empty_shot_event)
     \<and> deviceScreen_src
         (switch_type (constructor\<lparr>deviceScreen_src := ascii ''prev.png''\<rparr>) empty_shot_event)
       = deviceScreen_src (constructor\<lparr>deviceScreen_src := ascii ''prev.png''\<rparr>)"
    by (rule screenshot_shown_first [OF c, of "constructor\<lparr>deviceScreen_src := ascii ''prev.png''\<rparr>",
          THEN conjunct2, THEN mp, OF refl])
  from a b u v w c show ?thesis by simp
qed

text \<open>
  C9 as stated fails for a record that carries the screenshot \<open>''\<close>: the test
  \<open>if (data.screenshot)\<close> is false for it and the frame keeps the image it had.
\<close>

theorem empty_screenshot_not_shown:
  "screenshot empty_shot_event = Some []
   \<and> map_sum id deviceScreen_src
       (handleStepResult (constructor\<lparr>deviceScreen_src := ascii ''old''\<rparr>) (JData empty_shot_event))
     = Inr (ascii ''old'')"
  by (simp add: empty_shot_event_def handleStepResult_def update_screenshot_def frame_switch_type)

section \<open>Properties of \<open>executeTask\<close>\<close>

subsection \<open>The early returns\<close>

text \<open>
  C4, as the code has it. A text that is empty after trimming returns at once and
  changes nothing, connected or not, running or not. A text that is not: without a
  connected device the toast of the missing connection is shown; with a device and a
  task running, the toast of the running task. In all three cases only the toasts can
  differ afterwards: no session is started, nothing is added to the chat, nothing is
  sent.
\<close>

theorem executeTask_rejects:
  "(trim (messageInput_value s) = [] \<longrightarrow> executeTask parse s tr = (EmptyTask, s))
 \<and> (trim (messageInput_value s) \<noteq> [] \<and> \<not> isConnected s \<longrightarrow>
       executeTask parse s tr = (NotConnected, showToast s msg_connect_first (ascii ''warning'')))
 \<and> (trim (messageInput_value s) \<noteq> [] \<and> isConnected s \<and> isExecuting s \<longrightarrow>
       executeTask parse s tr = (AlreadyRunning, showToast s msg_executing (ascii ''warning'')))
 \<and> (fst (executeTask parse s tr) \<noteq> Finished \<longrightarrow>
       (snd (executeTask parse s tr))\<lparr>toasts := toasts s\<rparr> = s)"
  by (simp add: executeTask_def Let_def split_beta showToast_def)

text \<open>
  C4 as stated fails for a text of blanks: with a task running the return is the one of
  the empty task and no toast is shown, and the same without a connected device.
\<close>

theorem empty_text_counterexample:
  "isExecuting busy_app \<and> executeTask example_parse busy_app (FetchFailed []) = (EmptyTask, busy_app)
 \<and> \<not> isConnected constructor
 \<and> executeTask example_parse constructor (FetchFailed []) = (EmptyTask, constructor)"
  by (simp add: executeTask_def busy_app_def constructor_def trim_def js_whitespace_def ascii_def)

text \<open>The three early returns at concrete pages.\<close>

theorem executeTask_rejects_witness:
  "executeTask example_parse busy_app (FetchFailed []) = (EmptyTask, busy_app)
 \<and> executeTask example_parse (constructor\<lparr>messageInput_value := ascii ''go''\<rparr>) (FetchFailed [])
     = (NotConnected, (constructor\<lparr>messageInput_value := ascii ''go''\<rparr>)
          \<lparr>toasts := [(msg_connect_first, ascii ''warning'')]\<rparr>)
 \<and> executeTask example_parse (busy_app\<lparr>messageInput_value := ascii ''go''\<rparr>) (FetchFailed [])
     = (AlreadyRunning, (busy_app\<lparr>messageInput_value := ascii ''go''\<rparr>)
          \<lparr>toasts := [(msg_executing, ascii ''warning'')]\<rparr>)"
proof -
  have a: "trim (messageInput_value busy_app) = []"
    by (simp add: busy_app_def trim_def js_whitespace_def ascii_def)
  have b: "trim (messageInput_value (constructor\<lparr>messageInput_value := ascii ''go''\<rparr>)) \<noteq> []
      \<and> \<not> isConnected (constructor\<lparr>messageInput_value := ascii ''go''\<rparr>)"
    by (simp add: constructor_def trim_def js_whitespace_def ascii_def)
  have c: "trim (messageInput_value (busy_app\<lparr>messageInput_value := ascii ''go''\<rparr>)) \<noteq> []
      \<and> isConnected (busy_app\<lparr>messageInput_value := ascii ''go''\<rparr>)
      \<and> isExecuting (busy_app\<lparr>messageInput_value := ascii ''go''\<rparr>)"
    by (simp add: busy_app_def constructor_def trim_def js_whitespace_def ascii_def)
  have t: "toasts constructor = []" "toasts busy_app = []"
    by (simp_all add: busy_app_def constructor_def)
  have 1: "executeTask example_parse busy_app (FetchFailed []) = (EmptyTask, busy_app)"
    by (rule mp [OF executeTask_rejects [of busy_app example_parse "FetchFailed []",
          THEN conjunct1] a])
  have 2: "executeTask example_parse (constructor\<lparr>messageInput_value := ascii ''go''\<rparr>)
        (FetchFailed [])
      = (NotConnected, showToast (constructor\<lparr>messageInput_value := ascii ''go''\<rparr>)
           msg_connect_first (ascii ''warning''))"
    by (rule mp [OF executeTask_rejects [of "constructor\<lparr>messageInput_value := ascii ''go''\<rparr>"
          example_parse "FetchFailed []", THEN conjunct2, THEN conjunct1] b])
  have 3: "executeTask example_parse (busy_app\<lparr>messageInput_value := ascii ''go''\<rparr>)
        (FetchFailed [])
      = (AlreadyRunning, showToast (busy_app\<lparr>messageInput_value := ascii ''go''\<rparr>)
           msg_executing (ascii ''warning''))"
    by (rule mp [OF executeTask_rejects [of "busy_app\<lparr>messageInput_value := ascii ''go''\<rparr>"
          example_parse "FetchFailed []", THEN conjunct2, THEN conjunct2, THEN conjunct1] c])
  show ?thesis
    unfolding 1 2 3 by (simp add: showToast_def t)
qed

subsection \<open>The end of a run\<close>

lemma on_line_preserves:
  assumes "\<And>s d s'. h s d = Inr s' \<Longrightarrow> f s' = f s"
  shows "f (on_line parse h s line) = f s"
  using assms by (auto simp: on_line_def split: option.splits sum.splits)

lemma for_lines_preserves:
  assumes "\<And>s d s'. h s d = Inr s' \<Longrightarrow> f s' = f s"
  shows "f (for_lines parse h s ls) = f s"
  by (induction ls arbitrary: s) (simp_all add: on_line_preserves [where f = f, OF assms])

lemma read_loop_preserves:
  assumes "\<And>s d s'. h s d = Inr s' \<Longrightarrow> f s' = f s"
  shows "f (fst (read_loop parse h sr vals)) = f (fst sr)"
  by (induction vals arbitrary: sr)
     (simp_all add: on_chunk_def Let_def split_beta for_lines_preserves [where f = f, OF assms])

lemma switch_type_frame:
  "fetches (switch_type s e) = fetches s \<and> isConnected (switch_type s e) = isConnected s"
  by (simp add: switch_type_def Let_def addSystemMessage_def updateOrAddThinking_def
      removeThinking_def)

lemma update_screenshot_frame:
  "fetches (update_screenshot s e) = fetches s
   \<and> isConnected (update_screenshot s e) = isConnected s"
  by (simp add: update_screenshot_def split: option.splits)

lemma handleStepResult_fetches: "handleStepResult s d = Inr s' \<Longrightarrow> fetches s' = fetches s"
  by (cases d) (auto simp: handleStepResult_def switch_type_frame update_screenshot_frame)

lemma handleStepResult_isConnected:
  "handleStepResult s d = Inr s' \<Longrightarrow> isConnected s' = isConnected s"
  by (cases d) (auto simp: handleStepResult_def switch_type_frame update_screenshot_frame)

lemma executeTask_try_frame:
  "fetches (fst (executeTask_try parse s tr)) = fetches s
   \<and> isConnected (fst (executeTask_try parse s tr)) = isConnected s"
  by (cases tr)
     (simp_all add: executeTask_try_def
        read_loop_preserves [where f = fetches, OF handleStepResult_fetches]
        read_loop_preserves [where f = isConnected, OF handleStepResult_isConnected])

lemma executeTask_begin_frame:
  "fetches (executeTask_begin s task) = fetches s @ [ChatExecute task]
   \<and> isConnected (executeTask_begin s task) = isConnected s"
  by (simp add: executeTask_begin_def Let_def addMessage_def setExecutingState_def)

lemma executeTask_try_thrown:
  "snd (executeTask_try parse s tr) =
     (case tr of FetchFailed m \<Rightarrow> Some (Error m) | Body vals Closed \<Rightarrow> None
      | Body vals (Failed m) \<Rightarrow> Some (Error m))"
  by (simp add: executeTask_try_def split: transport.splits ending.splits)

lemma executeTask_run:
  assumes "trim (messageInput_value s) \<noteq> []" and "isConnected s" and "\<not> isExecuting s"
  shows "executeTask parse s tr =
     (Finished,
      refreshScreen (setExecutingState
        (case snd (executeTask_try parse (executeTask_begin s (trim (messageInput_value s))) tr) of
           None \<Rightarrow> fst (executeTask_try parse (executeTask_begin s (trim (messageInput_value s))) tr)
         | Some (Error m) \<Rightarrow>
             addSystemMessage
               (fst (executeTask_try parse (executeTask_begin s (trim (messageInput_value s))) tr))
               (Some (msg_exec_error @ m)) (ascii ''error'') None None) False))"
  unfolding executeTask_def Let_def
  by (simp only: assms if_False if_True not_True_eq_False not_False_eq_True split_beta)

lemma caught_chat:
  "chatContainer
     (case snd (executeTask_try parse b tr) of
        None \<Rightarrow> fst (executeTask_try parse b tr)
      | Some (Error m) \<Rightarrow>
          addSystemMessage (fst (executeTask_try parse b tr)) (Some (msg_exec_error @ m))
            (ascii ''error'') None None)
   = chatContainer (fst (executeTask_try parse b tr)) @
       (case tr of
          FetchFailed m \<Rightarrow> [SystemMessage (ascii ''error'') (msg_exec_error @ m) None None]
        | Body vals Closed \<Rightarrow> []
        | Body vals (Failed m) \<Rightarrow>
            [SystemMessage (ascii ''error'') (msg_exec_error @ m) None None])"
  by (simp add: executeTask_try_thrown addSystemMessage_def shown_def
        split: transport.splits ending.splits)

lemma caught_frame:
  "fetches
     (case thrown of
        None \<Rightarrow> s1
      | Some (Error m) \<Rightarrow> addSystemMessage s1 (Some (msg_exec_error @ m)) (ascii ''error'') None None)
   = fetches s1
   \<and> isConnected
     (case thrown of
        None \<Rightarrow> s1
      | Some (Error m) \<Rightarrow> addSystemMessage s1 (Some (msg_exec_error @ m)) (ascii ''error'') None None)
   = isConnected s1"
  by (simp add: addSystemMessage_def split: option.splits js_error.splits)

lemma finally_frame:
  assumes "isConnected s2"
  shows "\<not> isExecuting (refreshScreen (setExecutingState s2 False))
       \<and> \<not> messageInput_disabled (refreshScreen (setExecutingState s2 False))
       \<and> \<not> btnSend_hidden (refreshScreen (setExecutingState s2 False))
       \<and> btnStop_hidden (refreshScreen (setExecutingState s2 False))
       \<and> fetches (refreshScreen (setExecutingState s2 False)) = fetches s2 @ [DeviceScreenshot]
       \<and> chatContainer (refreshScreen (setExecutingState s2 False)) = chatContainer s2"
  using assms by (simp add: refreshScreen_def setExecutingState_def)

text \<open>
  C8. A run that passes the three checks ends in the \<open>finally\<close> block however the
  response goes (rejected \<open>fetch\<close>, body read to its end, rejected read): the input is
  enabled again, the send button is back, \<open>isExecuting\<close> is false, and exactly two
  requests were sent, the execution and after it one screenshot. The chat is what the
  stream left, followed by one error message when the \<open>fetch\<close> or a read was rejected
  and by nothing otherwise.
\<close>

theorem executeTask_ends_session:
  assumes "trim (messageInput_value s) \<noteq> []" and "isConnected s" and "\<not> isExecuting s"
  shows "\<exists>s'. executeTask parse s tr = (Finished, s')
     \<and> \<not> isExecuting s' \<and> \<not> messageInput_disabled s' \<and> \<not> btnSend_hidden s' \<and> btnStop_hidden s'
     \<and> fetches s' = fetches s @ [ChatExecute (trim (messageInput_value s)), DeviceScreenshot]
     \<and> chatContainer s' =
         chatContainer (fst (executeTask_try parse
             (executeTask_begin s (trim (messageInput_value s))) tr))
         @ (case tr of
              FetchFailed m \<Rightarrow> [SystemMessage (ascii ''error'') (msg_exec_error @ m) None None]
            | Body vals Closed \<Rightarrow> []
            | Body vals (Failed m) \<Rightarrow>
                [SystemMessage (ascii ''error'') (msg_exec_error @ m) None None])"
proof -
  define t where "t = executeTask_try parse (executeTask_begin s (trim (messageInput_value s))) tr"
  define s2 where "s2 =
     (case snd t of
        None \<Rightarrow> fst t
      | Some (Error m) \<Rightarrow>
          addSystemMessage (fst t) (Some (msg_exec_error @ m)) (ascii ''error'') None None)"
  define s' where "s' = refreshScreen (setExecutingState s2 False)"
  have run: "executeTask parse s tr = (Finished, s')"
    unfolding s'_def s2_def t_def by (rule executeTask_run [OF assms])
  have f: "fetches (fst t) = fetches s @ [ChatExecute (trim (messageInput_value s))]"
    unfolding t_def
    by (simp only: executeTask_try_frame [THEN conjunct1] executeTask_begin_frame [THEN conjunct1])
  have c: "isConnected (fst t)"
    unfolding t_def using assms(2)
    by (simp only: executeTask_try_frame [THEN conjunct2] executeTask_begin_frame [THEN conjunct2])
  have f2: "fetches s2 = fetches (fst t)" and c2': "isConnected s2 = isConnected (fst t)"
    unfolding s2_def by (simp_all only: caught_frame [THEN conjunct1] caught_frame [THEN conjunct2])
  from c c2' have c2: "isConnected s2" by simp
  have chat2: "chatContainer s2 = chatContainer (fst t) @
       (case tr of
          FetchFailed m \<Rightarrow> [SystemMessage (ascii ''error'') (msg_exec_error @ m) None None]
        | Body vals Closed \<Rightarrow> []
        | Body vals (Failed m) \<Rightarrow>
            [SystemMessage (ascii ''error'') (msg_exec_error @ m) None None])"
    unfolding s2_def t_def by (rule caught_chat)
  have fin: "\<not> isExecuting s' \<and> \<not> messageInput_disabled s' \<and> \<not> btnSend_hidden s'
       \<and> btnStop_hidden s' \<and> fetches s' = fetches s2 @ [DeviceScreenshot]
       \<and> chatContainer s' = chatContainer s2"
    unfolding s'_def by (rule finally_frame [OF c2])
  have props: "\<not> isExecuting s' \<and> \<not> messageInput_disabled s' \<and> \<not> btnSend_hidden s'
       \<and> btnStop_hidden s'
       \<and> fetches s' = fetches s @ [ChatExecute (trim (messageInput_value s)), DeviceScreenshot]
       \<and> chatContainer s' = chatContainer (fst t) @
       (case tr of
          FetchFailed m \<Rightarrow> [SystemMessage (ascii ''error'') (msg_exec_error @ m) None None]
        | Body vals Closed \<Rightarrow> []
        | Body vals (Failed m) \<Rightarrow>
            [SystemMessage (ascii ''error'') (msg_exec_error @ m) None None])"
    using fin by (simp only: f2 f chat2 append_Cons append_Nil append_assoc simp_thms)
  show ?thesis
    unfolding t_def [symmetric] by (rule exI [of _ s']) (rule conjI [OF run props])
qed

text \<open>
  The task \<open>go\<close>; the body delivers \<open>data:\<close> and \<open> {\<close>, a newline and \<open>d\<close>, and
  then the read is rejected with \<open>reset\<close>: one record was handled, one error is shown.
\<close>

lemma trim_go: "trim (messageInput_value ready_app) = ascii ''go''"
  by (simp add: ready_app_def trim_def js_whitespace_def ascii_def)

theorem executeTask_ends_session_witness:
  "trim (messageInput_value ready_app) \<noteq> [] \<and> isConnected ready_app \<and> \<not> isExecuting ready_app
   \<and> (\<exists>s'. executeTask example_parse ready_app
               (Body [[0x64, 0x61, 0x74, 0x61, 0x3A], [0x20, 0x7B, 0x0A, 0x64]]
                  (Failed (ascii ''reset'')))
             = (Finished, s')
          \<and> \<not> isExecuting s' \<and> \<not> messageInput_disabled s'
          \<and> fetches s' = [ChatExecute (ascii ''go''), DeviceScreenshot]
          \<and> chatContainer s'
              = [Message (ascii ''user'') (ascii ''go''), Thinking (ascii ''{''),
                 SystemMessage (ascii ''error'') (msg_exec_error @ ascii ''reset'') None None])"
proof -
  have a: "trim (messageInput_value ready_app) \<noteq> []"
    by (simp add: trim_go ascii_def)
  have b: "isConnected ready_app" and c: "\<not> isExecuting ready_app"
    by (simp_all add: ready_app_def constructor_def)
  have f0: "fetches ready_app = []"
    by (simp add: ready_app_def constructor_def)
  have chat: "chatContainer (fst (executeTask_try example_parse
        (executeTask_begin ready_app (trim (messageInput_value ready_app)))
        (Body [[0x64, 0x61, 0x74, 0x61, 0x3A], [0x20, 0x7B, 0x0A, 0x64]] (Failed (ascii ''reset'')))))
      = [Message (ascii ''user'') (ascii ''go''), Thinking (ascii ''{'')]"
    unfolding trim_go
    by (simp add: executeTask_try_def executeTask_begin_def ready_app_def constructor_def
        addMessage_def setExecutingState_def shown_def
        new_reader_def new_TextDecoder_def utf8_init_def
        on_chunk_def decode_def utf8_handler_def utf8_lead_def utf16_def split_def newline_def
        on_line_def startsWith_def slice_from_def data_prefix_def ascii_def example_parse_def
        handleStepResult_def update_screenshot_def switch_type_def updateOrAddThinking_def)
  from executeTask_ends_session [OF a b c, of example_parse
      "Body [[0x64, 0x61, 0x74, 0x61, 0x3A], [0x20, 0x7B, 0x0A, 0x64]] (Failed (ascii ''reset''))"]
  obtain s' where r: "executeTask example_parse ready_app
               (Body [[0x64, 0x61, 0x74, 0x61, 0x3A], [0x20, 0x7B, 0x0A, 0x64]]
                  (Failed (ascii ''reset'')))
             = (Finished, s')"
    and p: "\<not> isExecuting s'" "\<not> messageInput_disabled s'"
    and f: "fetches s' = fetches ready_app
              @ [ChatExecute (trim (messageInput_value ready_app)), DeviceScreenshot]"
    and ch: "chatContainer s' =
         chatContainer (fst (executeTask_try example_parse
             (executeTask_begin ready_app (trim (messageInput_value ready_app)))
             (Body [[0x64, 0x61, 0x74, 0x61, 0x3A], [0x20, 0x7B, 0x0A, 0x64]]
                (Failed (ascii ''reset'')))))
         @ [SystemMessage (ascii ''error'') (msg_exec_error @ ascii ''reset'') None None]"
    by auto
  from f have f': "fetches s' = [ChatExecute (ascii ''go''), DeviceScreenshot]"
    by (simp add: f0 trim_go)
  from ch have ch': "chatContainer s'
              = [Message (ascii ''user'') (ascii ''go''), Thinking (ascii ''{''),
                 SystemMessage (ascii ''error'') (msg_exec_error @ ascii ''reset'') None None]"
    by (simp only: chat append_Cons append_Nil)
  from a b c r p f' ch' show ?thesis by blast
qed

section \<open>Properties of the pairing poll\<close>

lemma live_clearInterval:
  "live (clearInterval s h) cb = filter (\<lambda>h'. h' \<noteq> h) (live s cb)"
  by (simp add: live_def clearInterval_def filter_map comp_def conj_commute)

lemma stopWirelessPolling_intervals:
  "intervals (stopWirelessPolling s) =
     filter (\<lambda>t. Some (fst t) \<noteq> wirelessPollingInterval s) (intervals s)
   \<and> wirelessPollingInterval (stopWirelessPolling s) = None"
  by (simp add: stopWirelessPolling_def clearInterval_def split: option.splits)

lemma live_field: "live (s\<lparr>wirelessPollingInterval := x\<rparr>) cb = live s cb"
  by (simp add: live_def)

lemma stopWirelessPolling_live:
  assumes "poll_owned s"
  shows "live (stopWirelessPolling s) WirelessPollTick = []"
proof (cases "wirelessPollingInterval s")
  case None
  with assms have "list_all (\<lambda>h. False) (live s WirelessPollTick)"
    by (simp add: poll_owned_def)
  then have "live s WirelessPollTick = []"
    by (cases "live s WirelessPollTick") simp_all
  with None show ?thesis by (simp add: stopWirelessPolling_def)
next
  case (Some h)
  with assms have "list_all (\<lambda>h'. h = h') (live s WirelessPollTick)"
    by (simp add: poll_owned_def)
  then have "filter (\<lambda>h'. h' \<noteq> h) (live s WirelessPollTick) = []"
    by (auto simp: filter_empty_conv list_all_iff)
  with Some show ?thesis by (simp add: stopWirelessPolling_def live_clearInterval live_field)
qed

lemma stopWirelessPolling_frame:
  "fetches (stopWirelessPolling s) = fetches s
   \<and> wirelessDevice_text (stopWirelessPolling s) = wirelessDevice_text s
   \<and> wirelessSuccess_hidden (stopWirelessPolling s) = wirelessSuccess_hidden s
   \<and> last_handle (stopWirelessPolling s) = last_handle s"
  by (simp add: stopWirelessPolling_def clearInterval_def split: option.splits)

lemma startWirelessPolling_one:
  assumes "poll_owned s"
  shows "live (startWirelessPolling s) WirelessPollTick = [Suc (last_handle s)]
       \<and> wirelessPollingInterval (startWirelessPolling s) = Some (Suc (last_handle s))
       \<and> poll_owned (startWirelessPolling s)"
proof -
  have "live (stopWirelessPolling s) WirelessPollTick = []"
    by (rule stopWirelessPolling_live [OF assms])
  then have "filter (\<lambda>t. fst (snd t) = WirelessPollTick) (intervals (stopWirelessPolling s)) = []"
    by (simp add: live_def)
  then show ?thesis
    by (simp add: startWirelessPolling_def setInterval_def Let_def live_def poll_owned_def
        stopWirelessPolling_frame)
qed

lemma handleWirelessStatus_connected:
  assumes "status d = Some (ascii ''connected'')"
  shows "handleWirelessStatus s d =
     connectWirelessDevice
       (showWirelessSuccess (stopWirelessPolling s) (device_ip d) (device_port d))
       (device_ip d) (device_port d)"
  using assms by (simp add: handleWirelessStatus_def Let_def ascii_def)

lemma connectWirelessDevice_effect:
  "connectWirelessDevice s ip port =
     (stopWirelessPolling (s\<lparr>connectModal_hidden := True\<rparr>))
       \<lparr>loading_text := msg_connecting_wireless, loadingOverlay_hidden := False,
        fetches := fetches s @ [DeviceConnect (toString ip @ ascii '':'' @ toString port)]\<rparr>"
  by (simp add: connectWirelessDevice_def Let_def hideConnectModal_def showLoading_def
      stopWirelessPolling_def clearInterval_def split: option.splits)

lemma polling_app_eq:
  "polling_app = constructor\<lparr>wirelessPollingInterval := Some 1,
      intervals := [(1, WirelessPollTick, 1000)], last_handle := 1\<rparr>"
  by (simp add: polling_app_def startWirelessPolling_def stopWirelessPolling_def setInterval_def
      constructor_def)

lemma poll_owned_polling_app: "poll_owned polling_app"
  by (simp add: polling_app_eq poll_owned_def live_def constructor_def)

lemma polling_app_timers:
  "live polling_app WirelessPollTick = [1] \<and> wirelessPollingInterval polling_app = Some 1"
  by (simp add: polling_app_eq live_def constructor_def)

lemma constructor_timers:
  "live constructor cb = [] \<and> last_handle constructor = 0 \<and> poll_owned constructor"
  by (simp add: constructor_def live_def poll_owned_def)

lemma updateWirelessStatus_frame:
  "intervals (updateWirelessStatus s m ty) = intervals s
   \<and> wirelessPollingInterval (updateWirelessStatus s m ty) = wirelessPollingInterval s
   \<and> live (updateWirelessStatus s m ty) cb = live s cb
   \<and> wirelessStatus_className (updateWirelessStatus s m ty) = ascii ''wireless-status '' @ ty"
  by (simp add: updateWirelessStatus_def live_def)

lemma successful_tick:
  "success d \<Longrightarrow>
     wirelessPollTick s (Replied d)
       = handleWirelessStatus (s\<lparr>fetches := fetches s @ [WirelessStatus]\<rparr>) d"
  by (simp add: wirelessPollTick_def Let_def)

lemma fetches_update_timers:
  "live (s\<lparr>fetches := x\<rparr>) cb = live s cb
   \<and> wirelessPollingInterval (s\<lparr>fetches := x\<rparr>) = wirelessPollingInterval s
   \<and> poll_owned (s\<lparr>fetches := x\<rparr>) = poll_owned s"
  by (simp add: live_def poll_owned_def)

lemma status_reply_fields:
  "success (status_reply st) \<and> status (status_reply st) = Some (ascii st)"
  by (simp add: status_reply_def)

lemma progress_tick:
  assumes "st = ''waiting_scan'' \<or> st = ''pairing'' \<or> st = ''pair_success'' \<or> st = ''connecting''"
  shows "fetches (wirelessPollTick s (Replied (status_reply st))) = fetches s @ [WirelessStatus]
       \<and> live (wirelessPollTick s (Replied (status_reply st))) cb = live s cb
       \<and> wirelessPollingInterval (wirelessPollTick s (Replied (status_reply st)))
           = wirelessPollingInterval s"
proof -
  have "\<exists>m. handleWirelessStatus (s\<lparr>fetches := fetches s @ [WirelessStatus]\<rparr>) (status_reply st)
      = updateWirelessStatus (s\<lparr>fetches := fetches s @ [WirelessStatus]\<rparr>) m (ascii ''pairing'')"
    using assms by (auto simp: handleWirelessStatus_def Let_def status_reply_def ascii_def)
  then obtain m where
    h: "handleWirelessStatus (s\<lparr>fetches := fetches s @ [WirelessStatus]\<rparr>) (status_reply st)
      = updateWirelessStatus (s\<lparr>fetches := fetches s @ [WirelessStatus]\<rparr>) m (ascii ''pairing'')"
    by blast
  have f: "fetches (updateWirelessStatus (s\<lparr>fetches := fetches s @ [WirelessStatus]\<rparr>) m
      (ascii ''pairing'')) = fetches s @ [WirelessStatus]"
    by (simp add: updateWirelessStatus_def)
  show ?thesis
    by (simp add: successful_tick status_reply_fields h f updateWirelessStatus_frame
        fetches_update_timers)
qed

text \<open>
  C5. A status \<open>connected\<close> clears the timer of the poll (the field is \<open>null\<close>, the
  handle is no longer live, and no poll timer is live when the field held the only one),
  shows the address, and sends one request to connect to the serial \<open>ip:port\<close>,
  without asking.
\<close>

theorem connected_status_connects:
  assumes "status d = Some (ascii ''connected'')"
  shows "wirelessPollingInterval (handleWirelessStatus s d) = None
       \<and> intervals (handleWirelessStatus s d)
           = filter (\<lambda>t. Some (fst t) \<noteq> wirelessPollingInterval s) (intervals s)
       \<and> (poll_owned s \<longrightarrow> live (handleWirelessStatus s d) WirelessPollTick = [])
       \<and> \<not> wirelessSuccess_hidden (handleWirelessStatus s d)
       \<and> wirelessDevice_text (handleWirelessStatus s d)
           = msg_device_addr @ toString (device_ip d) @ ascii '':'' @ toString (device_port d)
       \<and> fetches (handleWirelessStatus s d)
           = fetches s @ [DeviceConnect (toString (device_ip d) @ ascii '':'' @ toString (device_port d))]"
proof -
  define s1 where "s1 = stopWirelessPolling s"
  define s2 where "s2 = showWirelessSuccess s1 (device_ip d) (device_port d)"
  have h: "handleWirelessStatus s d = connectWirelessDevice s2 (device_ip d) (device_port d)"
    unfolding s2_def s1_def by (rule handleWirelessStatus_connected [OF assms])
  have i1: "intervals s1 = filter (\<lambda>t. Some (fst t) \<noteq> wirelessPollingInterval s) (intervals s)"
    and p1: "wirelessPollingInterval s1 = None" and f1: "fetches s1 = fetches s"
    unfolding s1_def
    by (simp_all add: stopWirelessPolling_intervals stopWirelessPolling_frame)
  have l1: "poll_owned s \<longrightarrow> live s1 WirelessPollTick = []"
    unfolding s1_def by (simp add: stopWirelessPolling_live)
  have s2: "intervals s2 = intervals s1" "wirelessPollingInterval s2 = None"
    "fetches s2 = fetches s1" "\<not> wirelessSuccess_hidden s2"
    "wirelessDevice_text s2
       = msg_device_addr @ toString (device_ip d) @ ascii '':'' @ toString (device_port d)"
    unfolding s2_def by (simp_all add: showWirelessSuccess_def p1)
  show ?thesis
    unfolding h connectWirelessDevice_effect
    using l1 by (simp add: stopWirelessPolling_def s2 i1 f1 live_def)
qed

text \<open>
  The poll is running and the address is 10.0.0.5, port 5555: the status \<open>connected\<close>
  alone, and at the end of the replies \<open>waiting_scan\<close>, \<open>pairing\<close>,
  \<open>pair_success\<close>, \<open>connecting\<close>, \<open>connected\<close> of five ticks.
\<close>

theorem connected_status_connects_witness:
  "status (status_reply ''connected'') = Some (ascii ''connected'')
   \<and> wirelessPollingInterval polling_app = Some 1
   \<and> live polling_app WirelessPollTick = [1]
   \<and> wirelessPollingInterval (handleWirelessStatus polling_app (status_reply ''connected'')) = None
   \<and> live (handleWirelessStatus polling_app (status_reply ''connected'')) WirelessPollTick = []
   \<and> wirelessDevice_text (handleWirelessStatus polling_app (status_reply ''connected''))
       = msg_device_addr @ ascii ''10.0.0.5:5555''
   \<and> fetches (handleWirelessStatus polling_app (status_reply ''connected''))
       = [DeviceConnect (ascii ''10.0.0.5:5555'')]
   \<and> fetches (foldl wirelessPollTick polling_app
        (map (\<lambda>st. Replied (status_reply st))
           [''waiting_scan'', ''pairing'', ''pair_success'', ''connecting'', ''connected'']))
       = [WirelessStatus, WirelessStatus, WirelessStatus, WirelessStatus, WirelessStatus,
          DeviceConnect (ascii ''10.0.0.5:5555'')]
   \<and> live (foldl wirelessPollTick polling_app
        (map (\<lambda>st. Replied (status_reply st))
           [''waiting_scan'', ''pairing'', ''pair_success'', ''connecting'', ''connected'']))
       WirelessPollTick = []"
proof -
  have a: "status (status_reply ''connected'') = Some (ascii ''connected'')"
    by (simp add: status_reply_def)
  have sr: "toString (device_ip (status_reply ''connected'')) @ ascii '':''
           @ toString (device_port (status_reply ''connected'')) = ascii ''10.0.0.5:5555''"
    by (simp add: status_reply_def decimal.simps ascii_def)
  have p: "wirelessPollingInterval polling_app = Some 1"
    "live polling_app WirelessPollTick = [1]" "fetches polling_app = []"
    by (simp_all add: polling_app_eq live_def constructor_def)
  have one: "wirelessPollingInterval (handleWirelessStatus polling_app (status_reply ''connected''))
       = None
   \<and> live (handleWirelessStatus polling_app (status_reply ''connected'')) WirelessPollTick = []
   \<and> wirelessDevice_text (handleWirelessStatus polling_app (status_reply ''connected''))
       = msg_device_addr @ ascii ''10.0.0.5:5555''
   \<and> fetches (handleWirelessStatus polling_app (status_reply ''connected''))
       = [DeviceConnect (ascii ''10.0.0.5:5555'')]"
    using connected_status_connects [OF a, of polling_app] sr p poll_owned_polling_app
    by simp
  have tick: "\<And>s. fetches (wirelessPollTick s (Replied (status_reply ''connected'')))
       = fetches s @ [WirelessStatus, DeviceConnect (ascii ''10.0.0.5:5555'')]
     \<and> (poll_owned s \<longrightarrow>
          live (wirelessPollTick s (Replied (status_reply ''connected''))) WirelessPollTick = [])"
  proof -
    fix s
    show "fetches (wirelessPollTick s (Replied (status_reply ''connected'')))
       = fetches s @ [WirelessStatus, DeviceConnect (ascii ''10.0.0.5:5555'')]
     \<and> (poll_owned s \<longrightarrow>
          live (wirelessPollTick s (Replied (status_reply ''connected''))) WirelessPollTick = [])"
      using connected_status_connects [OF a, of "s\<lparr>fetches := fetches s @ [WirelessStatus]\<rparr>"]
      by (simp add: successful_tick status_reply_fields sr fetches_update_timers)
  qed
  define s1 where "s1 = wirelessPollTick polling_app (Replied (status_reply ''waiting_scan''))"
  define s2 where "s2 = wirelessPollTick s1 (Replied (status_reply ''pairing''))"
  define s3 where "s3 = wirelessPollTick s2 (Replied (status_reply ''pair_success''))"
  define s4 where "s4 = wirelessPollTick s3 (Replied (status_reply ''connecting''))"
  define s5 where "s5 = wirelessPollTick s4 (Replied (status_reply ''connected''))"
  have 1: "fetches s1 = [WirelessStatus]" "poll_owned s1"
    unfolding s1_def using poll_owned_polling_app
    by (simp_all add: progress_tick p poll_owned_def)
  have 2: "fetches s2 = [WirelessStatus, WirelessStatus]" "poll_owned s2"
    unfolding s2_def using 1 by (simp_all add: progress_tick poll_owned_def)
  have 3: "fetches s3 = [WirelessStatus, WirelessStatus, WirelessStatus]" "poll_owned s3"
    unfolding s3_def using 2 by (simp_all add: progress_tick poll_owned_def)
  have 4: "fetches s4 = [WirelessStatus, WirelessStatus, WirelessStatus, WirelessStatus]"
    "poll_owned s4"
    unfolding s4_def using 3 by (simp_all add: progress_tick poll_owned_def)
  have 5: "fetches s5 = [WirelessStatus, WirelessStatus, WirelessStatus, WirelessStatus,
      WirelessStatus, DeviceConnect (ascii ''10.0.0.5:5555'')]"
    "live s5 WirelessPollTick = []"
    unfolding s5_def using 4 by (simp_all add: tick)
  have "foldl wirelessPollTick polling_app
      (map (\<lambda>st. Replied (status_reply st))
         [''waiting_scan'', ''pairing'', ''pair_success'', ''connecting'', ''connected'']) = s5"
    by (simp add: s1_def s2_def s3_def s4_def s5_def)
  with 5 a p one show ?thesis by simp
qed

text \<open>
  C10. A reply whose \<open>success\<close> is false changes nothing but the list of requests
  sent: the timers, the field of the poll, the toasts and the status line are as before.
  A reply whose \<open>success\<close> is true goes through \<open>handleWirelessStatus\<close>.
\<close>

theorem unsuccessful_reply_ignored:
  "(\<not> success d \<longrightarrow>
      wirelessPollTick s (Replied d) = s\<lparr>fetches := fetches s @ [WirelessStatus]\<rparr>
    \<and> intervals (wirelessPollTick s (Replied d)) = intervals s
    \<and> wirelessPollingInterval (wirelessPollTick s (Replied d)) = wirelessPollingInterval s
    \<and> toasts (wirelessPollTick s (Replied d)) = toasts s
    \<and> wirelessStatus_message (wirelessPollTick s (Replied d)) = wirelessStatus_message s
    \<and> wirelessStatus_className (wirelessPollTick s (Replied d)) = wirelessStatus_className s)
 \<and> (success d \<longrightarrow>
      wirelessPollTick s (Replied d)
        = handleWirelessStatus (s\<lparr>fetches := fetches s @ [WirelessStatus]\<rparr>) d)"
  by (simp add: wirelessPollTick_def Let_def)

text \<open>The same reply with \<open>success\<close> false, and as it is.\<close>

theorem unsuccessful_reply_ignored_witness:
  "\<not> success ((status_reply ''connected'')\<lparr>success := False\<rparr>)
   \<and> wirelessPollTick polling_app (Replied ((status_reply ''connected'')\<lparr>success := False\<rparr>))
       = polling_app\<lparr>fetches := [WirelessStatus]\<rparr>
   \<and> intervals (wirelessPollTick polling_app
         (Replied ((status_reply ''connected'')\<lparr>success := False\<rparr>)))
       = [(1, WirelessPollTick, 1000)]
   \<and> success (status_reply ''connected'')
   \<and> fetches (wirelessPollTick polling_app (Replied (status_reply ''connected'')))
       = [WirelessStatus, DeviceConnect (ascii ''10.0.0.5:5555'')]"
proof -
  have a: "\<not> success ((status_reply ''connected'')\<lparr>success := False\<rparr>)"
    and b: "success (status_reply ''connected'')"
    by (simp_all add: status_reply_def)
  have f0: "fetches polling_app = []" and i0: "intervals polling_app = [(1, WirelessPollTick, 1000)]"
    by (simp_all add: polling_app_eq constructor_def)
  have c: "fetches (handleWirelessStatus (polling_app\<lparr>fetches := fetches polling_app @ [WirelessStatus]\<rparr>)
        (status_reply ''connected''))
      = [WirelessStatus, DeviceConnect (ascii ''10.0.0.5:5555'')]"
    by (simp add: f0 handleWirelessStatus_def status_reply_def connectWirelessDevice_def
        showWirelessSuccess_def hideConnectModal_def showLoading_def stopWirelessPolling_def
        clearInterval_def polling_app_eq constructor_def decimal.simps ascii_def)
  show ?thesis
    using unsuccessful_reply_ignored [of "(status_reply ''connected'')\<lparr>success := False\<rparr>" polling_app]
      unsuccessful_reply_ignored [of "status_reply ''connected''" polling_app] a b c f0 i0
    by simp
qed

subsection \<open>Failure statuses\<close>

lemma failure_status_frame:
  assumes "status d = Some (ascii ''pair_failed'') \<or> status d = Some (ascii ''connect_failed'')
         \<or> status d = Some (ascii ''error'')"
  shows "handleWirelessStatus s d
           = updateWirelessStatus s (or_else (Some (or_else (status_message d) [])) msg_op_failed)
               (ascii ''error'')"
  using assms by (auto simp: handleWirelessStatus_def Let_def ascii_def)

lemma failure_tick:
  assumes "success d"
    and "status d = Some (ascii ''pair_failed'') \<or> status d = Some (ascii ''connect_failed'')
         \<or> status d = Some (ascii ''error'')"
  shows "live (wirelessPollTick s (Replied d)) cb = live s cb
       \<and> wirelessPollingInterval (wirelessPollTick s (Replied d)) = wirelessPollingInterval s
       \<and> wirelessStatus_className (wirelessPollTick s (Replied d)) = ascii ''wireless-status error''"
  by (simp add: successful_tick [OF assms(1)] failure_status_frame [OF assms(2)]
      updateWirelessStatus_frame fetches_update_timers ascii_def)

lemma pairing_tick:
  assumes "success d" and "status d = Some (ascii ''pairing'')"
  shows "wirelessStatus_className (wirelessPollTick s (Replied d)) = ascii ''wireless-status pairing''"
  using assms(2)
  by (simp add: successful_tick [OF assms(1)] handleWirelessStatus_def Let_def
      updateWirelessStatus_frame ascii_def)

lemma timeout_tick:
  assumes "success d" and "status d = Some (ascii ''timeout'')" and "poll_owned s"
  shows "live (wirelessPollTick s (Replied d)) WirelessPollTick = []"
proof -
  have "handleWirelessStatus (s\<lparr>fetches := fetches s @ [WirelessStatus]\<rparr>) d
      = stopWirelessPolling (updateWirelessStatus (s\<lparr>fetches := fetches s @ [WirelessStatus]\<rparr>)
          msg_timeout (ascii ''error''))"
    using assms(2) by (simp add: handleWirelessStatus_def Let_def ascii_def)
  moreover have "poll_owned (updateWirelessStatus (s\<lparr>fetches := fetches s @ [WirelessStatus]\<rparr>)
          msg_timeout (ascii ''error''))"
    using assms(3) by (simp add: poll_owned_def updateWirelessStatus_def live_def)
  ultimately show ?thesis
    by (simp add: successful_tick [OF assms(1)] stopWirelessPolling_live)
qed

text \<open>
  C3 does not hold of the code. The cases \<open>pair_failed\<close>, \<open>connect_failed\<close> and
  \<open>error\<close> of \<open>handleWirelessStatus\<close> show the error and leave the timer of the poll
  running, where the cases \<open>timeout\<close> and \<open>connected\<close> call \<open>stopWirelessPolling\<close>.
  From the page with the poll started: after each of the three statuses the timer is still
  live and the field still holds it, a later status \<open>pairing\<close> replaces the error on
  the status line, and after \<open>timeout\<close> no poll timer is live.
\<close>

theorem failure_status_keeps_polling:
  "wirelessPollingInterval (wirelessPollTick polling_app (Replied (status_reply ''pair_failed'')))
     = Some 1
   \<and> live (wirelessPollTick polling_app (Replied (status_reply ''pair_failed''))) WirelessPollTick
     = [1]
   \<and> live (wirelessPollTick polling_app (Replied (status_reply ''connect_failed'')))
       WirelessPollTick = [1]
   \<and> live (wirelessPollTick polling_app (Replied (status_reply ''error''))) WirelessPollTick = [1]
   \<and> wirelessStatus_className
       (wirelessPollTick polling_app (Replied (status_reply ''pair_failed'')))
     = ascii ''wireless-status error''
   \<and> wirelessStatus_className
       (wirelessPollTick (wirelessPollTick polling_app (Replied (status_reply ''pair_failed'')))
          (Replied (status_reply ''pairing'')))
     = ascii ''wireless-status pairing''
   \<and> live (wirelessPollTick polling_app (Replied (status_reply ''timeout''))) WirelessPollTick = []"
proof -
  have s: "\<And>st. success (status_reply st)" "\<And>st. status (status_reply st) = Some (ascii st)"
    by (simp_all add: status_reply_fields)
  have 1: "live (wirelessPollTick polling_app (Replied (status_reply ''pair_failed''))) WirelessPollTick = [1]"
    "wirelessPollingInterval (wirelessPollTick polling_app (Replied (status_reply ''pair_failed''))) = Some 1"
    "wirelessStatus_className (wirelessPollTick polling_app (Replied (status_reply ''pair_failed'')))
       = ascii ''wireless-status error''"
    by (simp_all add: failure_tick s polling_app_timers)
  have 2: "live (wirelessPollTick polling_app (Replied (status_reply ''connect_failed''))) WirelessPollTick = [1]"
    by (simp add: failure_tick s polling_app_timers)
  have 3: "live (wirelessPollTick polling_app (Replied (status_reply ''error''))) WirelessPollTick = [1]"
    by (simp add: failure_tick s polling_app_timers)
  have 4: "wirelessStatus_className
       (wirelessPollTick (wirelessPollTick polling_app (Replied (status_reply ''pair_failed'')))
          (Replied (status_reply ''pairing'')))
     = ascii ''wireless-status pairing''"
    by (rule pairing_tick) (simp_all add: s)
  have 5: "live (wirelessPollTick polling_app (Replied (status_reply ''timeout''))) WirelessPollTick = []"
    by (rule timeout_tick) (simp_all add: s poll_owned_polling_app)
  from 1 2 3 4 5 show ?thesis by simp
qed

section \<open>Properties of the timers\<close>

text \<open>While a task runs the tick of the screen refresh does nothing.\<close>

lemma screenRefreshTick_executing: "isExecuting s \<Longrightarrow> screenRefreshTick s = s"
  by (simp add: screenRefreshTick_def)

lemma startScreenRefresh_adds:
  "live (startScreenRefresh s) ScreenRefreshTick
     = live s ScreenRefreshTick @ [Suc (last_handle s)]
   \<and> screenRefreshInterval (startScreenRefresh s) = Some (Suc (last_handle s))
   \<and> last_handle (startScreenRefresh s) = Suc (last_handle s)"
  by (simp add: startScreenRefresh_def refreshScreen_def showToast_def setInterval_def Let_def
      live_def)

lemma live_stopScreenRefresh:
  "screenRefreshInterval s = Some h \<Longrightarrow>
     live (stopScreenRefresh s) cb = filter (\<lambda>h'. h' \<noteq> h) (live s cb)"
  by (simp add: stopScreenRefresh_def live_def clearInterval_def filter_map comp_def conj_commute)

lemma connect_reply_adds:
  assumes "conn_success d"
  shows "live (connectWirelessDevice_reply s (Replied d)) ScreenRefreshTick
           = live s ScreenRefreshTick @ [Suc (last_handle s)]
       \<and> last_handle (connectWirelessDevice_reply s (Replied d)) = Suc (last_handle s)"
proof -
  define s3 where "s3 = showScreen (updateConnectionStatus (s\<lparr>isConnected := True\<rparr>) True (conn_data d))"
  have a: "live s3 ScreenRefreshTick = live s ScreenRefreshTick" and b: "last_handle s3 = last_handle s"
    unfolding s3_def by (simp_all add: showScreen_def updateConnectionStatus_def live_def)
  have "connectWirelessDevice_reply s (Replied d)
      = hideLoading (showToast (startScreenRefresh s3) msg_wireless_connected (ascii ''success''))"
    unfolding s3_def using assms by (simp add: connectWirelessDevice_reply_def Let_def)
  then show ?thesis
    by (simp add: hideLoading_def showToast_def live_def startScreenRefresh_adds [unfolded live_def] a [unfolded live_def] b)
qed

text \<open>
  C2 does not hold of the code. \<open>startWirelessPolling\<close> stops the poll before it sets
  a new timer; \<open>startScreenRefresh\<close> sets a new timer over the old one, and
  \<open>stopScreenRefresh\<close> is never called. After two starts of the screen refresh, or two
  successful connects, two refresh timers are live, the field holds the second, and
  stopping clears only that one; two starts of the poll leave one timer.
\<close>

theorem screen_refresh_timer_leak:
  "live (startScreenRefresh (startScreenRefresh (constructor\<lparr>isConnected := True\<rparr>)))
      ScreenRefreshTick = [1, 2]
   \<and> screenRefreshInterval
       (startScreenRefresh (startScreenRefresh (constructor\<lparr>isConnected := True\<rparr>))) = Some 2
   \<and> live (stopScreenRefresh
         (startScreenRefresh (startScreenRefresh (constructor\<lparr>isConnected := True\<rparr>))))
      ScreenRefreshTick = [1]
   \<and> live (connectWirelessDevice_reply (connectWirelessDevice_reply constructor connect_ok)
         connect_ok) ScreenRefreshTick = [1, 2]
   \<and> live (startWirelessPolling (startWirelessPolling constructor)) WirelessPollTick = [2]"
proof -
  define c where "c = constructor\<lparr>isConnected := True\<rparr>"
  have c0: "live c ScreenRefreshTick = []" "last_handle c = 0"
    unfolding c_def by (simp_all add: constructor_def live_def)
  have two: "live (startScreenRefresh (startScreenRefresh c)) ScreenRefreshTick = [1, 2]"
    and f: "screenRefreshInterval (startScreenRefresh (startScreenRefresh c)) = Some 2"
    by (simp_all add: startScreenRefresh_adds c0)
  have stop: "live (stopScreenRefresh (startScreenRefresh (startScreenRefresh c)))
      ScreenRefreshTick = [1]"
    by (simp add: live_stopScreenRefresh [OF f] two)
  have ok: "connect_ok = Replied \<lparr>conn_success = True, conn_message = None,
              conn_data = Some \<lparr>brand = ascii ''Acme'', model = ascii ''One''\<rparr>\<rparr>"
    by (simp add: connect_ok_def)
  have conn: "live (connectWirelessDevice_reply (connectWirelessDevice_reply constructor connect_ok)
         connect_ok) ScreenRefreshTick = [1, 2]"
    unfolding ok by (simp add: connect_reply_adds constructor_timers)
  have p1: "live (startWirelessPolling constructor) WirelessPollTick = [1]"
    "last_handle (startWirelessPolling constructor) = 1"
    using polling_app_eq polling_app_timers
    by (simp_all add: polling_app_def constructor_def)
  have poll: "live (startWirelessPolling (startWirelessPolling constructor)) WirelessPollTick = [2]"
    using startWirelessPolling_one [OF poll_owned_polling_app] p1
    by (simp add: polling_app_def)
  from two f stop conn poll show ?thesis
    unfolding c_def by simp
qed

end
